theory Spec2Isabelle
  imports
    Main
    "HOL-Library.Word"
    "HOL-Library.Sublist"
    "HOL-Library.Char_ord"
    "HOL-Library.List_Lexorder"
    "HOL-Library.Multiset"
    "HOL-Library.AList"
begin

section \<open>The pipelines run command (pipelines/internal/commands/run/run.go)\<close>

text \<open>
  The development follows run.go function by function.  Go strings are byte
  sequences and are modelled as \<^typ>\<open>string\<close> (a list of 8-bit characters); Go's
  string comparison is the lexicographic order on bytes, which is the order of
  \<open>HOL-Library.List_Lexorder\<close> over \<open>HOL-Library.Char_ord\<close>.
\<close>

subsection \<open>Functions of the Go standard library used by run.go\<close>

text \<open>
  \<open>strings.HasPrefix\<close>, \<open>strings.HasSuffix\<close>, \<open>strings.Join\<close>,
  \<open>strings.Index\<close>, \<open>strings.Split\<close> (by a one-byte separator, the only use in
  run.go), \<open>strings.TrimRight\<close> and \<open>strings.TrimPrefix\<close>.
\<close>

definition HasPrefix :: "string \<Rightarrow> string \<Rightarrow> bool" where
  "HasPrefix s p = prefix p s"

definition HasSuffix :: "string \<Rightarrow> string \<Rightarrow> bool" where
  "HasSuffix s p = suffix p s"

fun Join :: "string list \<Rightarrow> string \<Rightarrow> string" where
  "Join [] sep = []"
| "Join [x] sep = x"
| "Join (x # y # ys) sep = x @ sep @ Join (y # ys) sep"

text \<open>\<open>strings.Index\<close> returns the byte offset of the first occurrence, or -1.\<close>

fun Index :: "string \<Rightarrow> string \<Rightarrow> int" where
  "Index [] sub = (if sub = [] then 0 else -1)"
| "Index (c # s) sub =
     (if prefix sub (c # s) then 0
      else (let r = Index s sub in if r < 0 then -1 else r + 1))"

text \<open>
  \<open>strings.Split s sep\<close> for a separator of one byte: the pieces between the
  separators; a string without separator (also the empty string) is one piece.
\<close>

fun Split :: "string \<Rightarrow> char \<Rightarrow> string list" where
  "Split [] sep = [[]]"
| "Split (c # s) sep =
     (if c = sep then [] # Split s sep
      else (case Split s sep of
              [] \<Rightarrow> [[c]]
            | w # ws \<Rightarrow> (c # w) # ws))"

definition TrimRight :: "string \<Rightarrow> char \<Rightarrow> string" where
  "TrimRight s c = rev (dropWhile (\<lambda>x. x = c) (rev s))"

definition TrimPrefix :: "string \<Rightarrow> string \<Rightarrow> string" where
  "TrimPrefix s p = (if HasPrefix s p then drop (length p) s else s)"

text \<open>
  White space as \<open>unicode.IsSpace\<close> sees it.  The six ASCII characters are one byte
  each; the other white-space runes (U+0085, U+00A0, U+1680, U+2000 to U+200A,
  U+2028, U+2029, U+202F, U+205F, U+3000) are listed by their UTF-8 encodings.  A
  lead byte of UTF-8 always starts a rune for Go's decoder, so matching the
  encodings on the bytes agrees with decoding rune by rune.
\<close>

definition asciiSpace :: "char \<Rightarrow> bool" where
  "asciiSpace c = (c \<in> set [CHR 0x09, CHR 0x0A, CHR 0x0B, CHR 0x0C, CHR 0x0D, CHR 0x20])"

definition unicodeSpaces :: "string list" where
  "unicodeSpaces =
     [[CHR 0xC2, CHR 0x85], [CHR 0xC2, CHR 0xA0], [CHR 0xE1, CHR 0x9A, CHR 0x80],
      [CHR 0xE2, CHR 0x80, CHR 0x80], [CHR 0xE2, CHR 0x80, CHR 0x81],
      [CHR 0xE2, CHR 0x80, CHR 0x82], [CHR 0xE2, CHR 0x80, CHR 0x83],
      [CHR 0xE2, CHR 0x80, CHR 0x84], [CHR 0xE2, CHR 0x80, CHR 0x85],
      [CHR 0xE2, CHR 0x80, CHR 0x86], [CHR 0xE2, CHR 0x80, CHR 0x87],
      [CHR 0xE2, CHR 0x80, CHR 0x88], [CHR 0xE2, CHR 0x80, CHR 0x89],
      [CHR 0xE2, CHR 0x80, CHR 0x8A], [CHR 0xE2, CHR 0x80, CHR 0xA8],
      [CHR 0xE2, CHR 0x80, CHR 0xA9], [CHR 0xE2, CHR 0x80, CHR 0xAF],
      [CHR 0xE2, CHR 0x81, CHR 0x9F], [CHR 0xE3, CHR 0x80, CHR 0x80]]"

text \<open>The number of bytes of the white-space rune that starts the string, 0 if none does.\<close>

definition spaceWidth :: "string \<Rightarrow> nat" where
  "spaceWidth s =
     (case s of
        [] \<Rightarrow> 0
      | c # _ \<Rightarrow>
          if asciiSpace c then 1
          else (case find (\<lambda>p. prefix p s) unicodeSpaces of
                  None \<Rightarrow> 0
                | Some p \<Rightarrow> length p))"

text \<open>The same for the white-space rune that ends the string, read on the reversed string.\<close>

definition spaceWidthRev :: "string \<Rightarrow> nat" where
  "spaceWidthRev r =
     (case r of
        [] \<Rightarrow> 0
      | c # _ \<Rightarrow>
          if asciiSpace c then 1
          else (case find (\<lambda>p. prefix (rev p) r) unicodeSpaces of
                  None \<Rightarrow> 0
                | Some p \<Rightarrow> length p))"

text \<open>
  \<open>strings.Fields\<close>: the maximal runs of bytes between white space.  The first
  argument counts the bytes of a multi-byte white-space rune still to skip, the second
  is the field being read.
\<close>

fun Fields_scan :: "nat \<Rightarrow> string \<Rightarrow> string \<Rightarrow> string list" where
  "Fields_scan k cur [] = (if cur = [] then [] else [cur])"
| "Fields_scan k cur (c # s) =
     (if 0 < k then Fields_scan (k - 1) cur s
      else if 0 < spaceWidth (c # s)
        then (if cur = [] then [] else [cur]) @ Fields_scan (spaceWidth (c # s) - 1) [] s
        else Fields_scan 0 (cur @ [c]) s)"

definition Fields :: "string \<Rightarrow> string list" where
  "Fields s = Fields_scan 0 [] s"

fun trimLeading :: "(string \<Rightarrow> nat) \<Rightarrow> nat \<Rightarrow> string \<Rightarrow> string" where
  "trimLeading width k [] = []"
| "trimLeading width k (c # s) =
     (if 0 < k then trimLeading width (k - 1) s
      else if 0 < width (c # s) then trimLeading width (width (c # s) - 1) s
      else c # s)"

definition TrimSpace :: "string \<Rightarrow> string" where
  "TrimSpace s = rev (trimLeading spaceWidthRev 0 (rev (trimLeading spaceWidth 0 s)))"

text \<open>
  \<open>strings.ToUpper\<close>: on a string of ASCII bytes the letters a to z are mapped to
  A to Z.  On any other string Go maps every rune through \<open>unicode.ToUpper\<close>; that
  table is not modelled and enters as the parameter \<open>unicodeUpper\<close>.
\<close>

definition upperASCII :: "char \<Rightarrow> char" where
  "upperASCII c =
     (case map_of (zip ''abcdefghijklmnopqrstuvwxyz'' ''ABCDEFGHIJKLMNOPQRSTUVWXYZ'') c of
        None \<Rightarrow> c
      | Some u \<Rightarrow> u)"

definition ToUpper :: "(string \<Rightarrow> string) \<Rightarrow> string \<Rightarrow> string" where
  "ToUpper unicodeUpper s =
     (if list_all (\<lambda>c. c < CHR 0x80) s then map upperASCII s else unicodeUpper s)"

text \<open>
  \<open>strconv.ParseInt s 10 64\<close>: an optional sign, then decimal digits only; the
  digits are read left to right and the first value beyond 64 bits is a range error
  at once, before the rest is looked at.  The error carries the text it was given.
\<close>

datatype strconv_err = ErrSyntax | ErrRange

datatype NumError = NumError string strconv_err

definition isDigit :: "char \<Rightarrow> bool" where
  "isDigit c = (CHR ''0'' \<le> c \<and> c \<le> CHR ''9'')"

fun ParseUint_loop :: "nat \<Rightarrow> string \<Rightarrow> strconv_err + nat" where
  "ParseUint_loop n [] = Inr n"
| "ParseUint_loop n (c # s) =
     (if \<not> isDigit c then Inl ErrSyntax
      else (let n1 = n * 10 + (of_char c - 48)
            in if 2 ^ 64 \<le> n1 then Inl ErrRange else ParseUint_loop n1 s))"

definition ParseUint :: "string \<Rightarrow> strconv_err + nat" where
  "ParseUint s = (if s = [] then Inl ErrSyntax else ParseUint_loop 0 s)"

definition ParseInt :: "string \<Rightarrow> NumError + int" where
  "ParseInt s0 =
     (if s0 = [] then Inl (NumError s0 ErrSyntax)
      else (let neg = (hd s0 = CHR ''-'');
                s = (if hd s0 = CHR ''+'' \<or> hd s0 = CHR ''-'' then tl s0 else s0)
            in case ParseUint s of
                 Inl ErrSyntax \<Rightarrow> Inl (NumError s0 ErrSyntax)
               | Inl ErrRange \<Rightarrow> Inl (NumError s0 ErrRange)
               | Inr un \<Rightarrow>
                   if \<not> neg \<and> 2 ^ 63 \<le> un then Inl (NumError s0 ErrRange)
                   else if neg \<and> 2 ^ 63 < un then Inl (NumError s0 ErrRange)
                   else Inr (if neg then - int un else int un)))"

text \<open>\<open>%d\<close> of a non-negative integer.\<close>

function decimal :: "nat \<Rightarrow> string" where
  "decimal n =
     (if n < 10 then [''0123456789'' ! n]
      else decimal (n div 10) @ [''0123456789'' ! (n mod 10)])"
  by pat_completeness auto
termination
  by (relation "measure (\<lambda>n. n)") auto

declare decimal.simps [simp del]

text \<open>
  \<open>path.Clean\<close>, \<open>path.Join\<close> and \<open>path.Dir\<close> (and \<open>filepath.Join\<close>, which
  is the same function on a Unix host), by path elements: empty and \<open>.\<close> elements
  vanish, \<open>..\<close> removes the element before it, is dropped at the root and kept at
  the start of a relative path; an empty result is \<open>.\<close>.
\<close>

fun Clean_elems :: "bool \<Rightarrow> string list \<Rightarrow> string list \<Rightarrow> string list" where
  "Clean_elems rooted out [] = rev out"
| "Clean_elems rooted out (e # es) =
     (if e = [] \<or> e = ''.'' then Clean_elems rooted out es
      else if e = ''..'' then
        (case out of
           [] \<Rightarrow> if rooted then Clean_elems rooted out es
                 else Clean_elems rooted [e] es
         | prev # below \<Rightarrow>
             if prev = ''..'' then Clean_elems rooted (e # out) es
             else Clean_elems rooted below es)
      else Clean_elems rooted (e # out) es)"

definition Clean :: "string \<Rightarrow> string" where
  "Clean p =
     (let rooted = HasPrefix p ''/'';
          out = (if rooted then ''/'' else []) @ Join (Clean_elems rooted [] (Split p CHR ''/'')) ''/''
      in if out = [] then ''.'' else out)"

definition path_Join :: "string list \<Rightarrow> string" where
  "path_Join elem =
     (let used = filter (\<lambda>e. e \<noteq> []) elem
      in if used = [] then [] else Clean (Join used ''/''))"

definition path_Dir :: "string \<Rightarrow> string" where
  "path_Dir p = Clean (rev (dropWhile (\<lambda>c. c \<noteq> CHR ''/'') (rev p)))"

text \<open>
  A Go map that the program ranges over is an association list with distinct keys
  (\<open>AList.update\<close> overwrites in place).  Go leaves the order of \<open>range\<close> over a map
  open and draws it anew for each loop: \<open>go_range seed\<close> is the order of one loop,
  chosen by its \<open>seed\<close>, which repeatedly picks one of the entries not yet visited.
\<close>

primrec go_range :: "nat list \<Rightarrow> 'a list \<Rightarrow> 'a list" where
  "go_range [] xs = xs"
| "go_range (c # seed) xs =
     (if xs = [] then []
      else (let i = c mod length xs
            in xs ! i # go_range seed (take i xs @ drop (Suc i) xs)))"

subsection \<open>Data model: the fields of the API messages that run.go reads or writes\<close>

record Mount =
  Disk :: string
  Path :: string

record Action =
  ImageUri :: string
  Entrypoint :: string
  Commands :: "string list"
  Flags :: "string list"
  Mounts :: "Mount list"
  PortMappings :: "string \<rightharpoonup> int"
  Timeout :: string
  PidNamespace :: string

record Disk =
  Name :: string
  Type :: string
  SizeGb :: int
  SourceImage :: string

record Accelerator =
  Accelerator_Type :: string
  Count :: int

record Network =
  Network_Name :: string
  Subnetwork :: string
  UsePrivateAddress :: bool

record ServiceAccount =
  Email :: string
  Scopes :: "string list"

record VirtualMachine =
  MachineType :: string
  VM_Network :: Network
  VM_ServiceAccount :: ServiceAccount
  VM_Labels :: "string \<rightharpoonup> string"
  BootImage :: string
  Accelerators :: "Accelerator list"
  Disks :: "Disk list"
  BootDiskSizeGb :: int
  Preemptible :: bool

record Resources =
  ProjectId :: string
  Regions :: "string list"
  Zones :: "string list"
  VM :: VirtualMachine

record Pipeline =
  Actions :: "Action list"
  Environment :: "string \<rightharpoonup> string"
  Pipeline_Resources :: Resources
  Pipeline_Timeout :: string

record RunPipelineRequest =
  Request_Pipeline :: Pipeline
  Labels :: "string \<rightharpoonup> string"

text \<open>
  Errors are values; each constructor is one \<open>fmt.Errorf\<close> or \<open>errors.New\<close> of
  run.go and carries what its message prints.  \<open>NilPointerDereference\<close> is the
  run-time panic of reading a field through a nil \<open>*Action\<close>.
\<close>

datatype error =
    InvalidPortMapping string
  | ParsingHostPort NumError
  | ParsingPorts error
  | ParsingActionTimeout string
  | LineError nat error
  | OpeningScript
  | ReadingScript
  | ReadingInputFile
  | Processing string error
  | CreatingPipelineFromFile error
  | CreatingActionFromCommand error
  | NoCommandOrInputFile
  | BothZonesAndRegions
  | ExpandingRegions error
  | ExpandingZones error
  | CreatingComputeClient
  | CreatingComputeService
  | ListingZones
  | ListingRegions
  | NilPointerDereference
  | OnlySingleInputFile
  | BuildingRequest error
  | EncodingRequest
  | StartingPipeline
  | OperationFailed

text \<open>
  The command-line flags and the three flag-filled maps, named as the variables of
  run.go.  \<open>timeout\<close> and \<open>outputInterval\<close> are durations in nanoseconds.  The two
  attempt budgets are arguments of \<open>runPipeline\<close> below.
\<close>

record flags =
  name :: string
  scopes :: string
  zones :: string
  regions :: string
  "output" :: string
  dryRun :: bool
  wait :: bool
  machineType :: string
  inputs :: string
  outputs :: string
  diskSizeGb :: int
  diskType :: string
  diskImage :: string
  bootDiskSizeGb :: int
  privateAddress :: bool
  cloudSDKImage :: string
  timeout :: int
  defaultImage :: string
  gpus :: int
  gpuType :: string
  command :: string
  fuse :: bool
  ssh :: bool
  network :: string
  subnetwork :: string
  sharePIDs :: bool
  cosChannel :: string
  serviceAccount :: string
  outputInterval :: int
  environment :: "string \<rightharpoonup> string"
  labels :: "string \<rightharpoonup> string"
  vmLabels :: "string \<rightharpoonup> string"

text \<open>
  What run.go takes from outside itself: library functions that are not modelled
  above, the file system, the JSON decoder, the compute API, and the order of each
  \<open>range\<close> loop over a map.
  \<^item> \<open>urlParse\<close>: \<open>url.Parse\<close>, the host of the parsed URL, or \<open>None\<close> for an error;
  \<^item> \<open>ReadFile\<close>: \<open>ioutil.ReadFile\<close>, the bytes of the file, or \<open>None\<close>;
  \<^item> \<open>EncodeToString\<close>: \<open>base64.StdEncoding.EncodeToString\<close>;
  \<^item> \<open>Quote\<close>: the verb \<open>%q\<close> of \<open>fmt\<close>;
  \<^item> \<open>unicodeUpper\<close>: \<open>strings.ToUpper\<close> on a string with a non-ASCII byte;
  \<^item> \<open>ParseDuration\<close>: \<open>time.ParseDuration\<close>, in nanoseconds, or \<open>None\<close>;
  \<^item> \<open>formatSeconds\<close>: the verb \<open>%.0f\<close> applied to the seconds of a duration;
  \<^item> \<open>decodeRequest\<close>, \<open>decodeActions\<close>: \<open>parseJSON\<close> of the named file into a
    request and into an array of action pointers (a JSON \<open>null\<close> is a nil pointer),
    \<open>None\<close> when opening or decoding fails;
  \<^item> \<open>MarshalIndent\<close>: whether \<open>json.MarshalIndent\<close> encodes the request;
  \<^item> \<open>openScript\<close>, \<open>stdinScript\<close>: the lines that \<open>bufio.Scanner\<close> yields, and
    whether the scanner ends with an error; \<open>None\<close> when the file cannot be opened;
  \<^item> \<open>computeClient\<close>, \<open>computeService\<close>: whether \<open>google.DefaultClient\<close> and
    \<open>compute.New\<close> succeed; \<open>zonesList\<close>, \<open>regionsList\<close>: the names the compute
    API lists for a project, or \<open>None\<close>;
  \<^item> \<open>rangeInputs\<close>, \<open>rangeBuckets\<close>, \<open>rangeFuse\<close>, \<open>rangeOutputs\<close>,
    \<open>rangeDisks\<close>: the seeds of the five loops that range over a map.
\<close>

record world =
  urlParse :: "string \<Rightarrow> string option"
  ReadFile :: "string \<Rightarrow> string option"
  EncodeToString :: "string \<Rightarrow> string"
  Quote :: "string \<Rightarrow> string"
  unicodeUpper :: "string \<Rightarrow> string"
  ParseDuration :: "string \<Rightarrow> int option"
  formatSeconds :: "int \<Rightarrow> string"
  decodeRequest :: "string \<Rightarrow> RunPipelineRequest option"
  decodeActions :: "string \<Rightarrow> Action option list option"
  MarshalIndent :: "RunPipelineRequest \<Rightarrow> bool"
  openScript :: "string \<Rightarrow> (string list \<times> bool) option"
  stdinScript :: "string list \<times> bool"
  computeClient :: bool
  computeService :: bool
  zonesList :: "string \<Rightarrow> string list option"
  regionsList :: "string \<Rightarrow> string list option"
  rangeInputs :: "nat list"
  rangeBuckets :: "nat list"
  rangeFuse :: "nat list"
  rangeOutputs :: "nat list"
  rangeDisks :: "nat list"

subsection \<open>Small constructors of actions\<close>

definition googleRoot :: Mount where
  "googleRoot = \<lparr>Disk = ''google'', Path = ''/mnt/google''\<rparr>"

text \<open>\<open>bash\<close>: an action running the given shell commands in the cloud SDK image.\<close>

definition bash :: "flags \<Rightarrow> string list \<Rightarrow> Action" where
  "bash f commands =
     \<lparr>ImageUri = cloudSDKImage f,
      Entrypoint = ''bash'',
      Commands = [''-c'', Join commands '' && ''],
      Flags = [],
      Mounts = [googleRoot],
      PortMappings = Map.empty,
      Timeout = [],
      PidNamespace = []\<rparr>"

definition gsutil :: "flags \<Rightarrow> string list \<Rightarrow> Action" where
  "gsutil f arguments = bash f [''gsutil -q '' @ Join arguments '' '']"

definition sshDebug :: "string \<Rightarrow> Action" where
  "sshDebug project =
     \<lparr>ImageUri = ''gcr.io/cloud-genomics-pipelines/tools'',
      Entrypoint = ''ssh-server'',
      Commands = [],
      Flags = [''RUN_IN_BACKGROUND''],
      Mounts = [],
      PortMappings = [''22'' \<mapsto> 22],
      Timeout = [],
      PidNamespace = []\<rparr>"

definition isCloudCommand :: "string \<Rightarrow> bool" where
  "isCloudCommand cmd = (cmd = ''gsutil'' \<or> cmd = ''gcloud'')"

subsection \<open>The directory merger (\<open>mkdir\<close>)\<close>

text \<open>
  The loop of \<open>mkdir\<close> over \<open>directories[1:]\<close>: \<open>arguments\<close> is never empty (it
  starts as \<open>[directories[0]]\<close>), its last entry is replaced or a new one appended.
\<close>

fun mkdir_loop :: "string list \<Rightarrow> string list \<Rightarrow> string list" where
  "mkdir_loop arguments [] = arguments"
| "mkdir_loop arguments (directory # rest) =
     (if HasPrefix directory (last arguments)
      then mkdir_loop (butlast arguments @ [directory]) rest
      else mkdir_loop (arguments @ [directory]) rest)"

text \<open>The argument list that \<open>mkdir\<close> computes for a non-empty list of directories.\<close>

definition mkdir_arguments :: "string list \<Rightarrow> string list" where
  "mkdir_arguments directories =
     (let sorted_directories = sort directories
      in mkdir_loop [hd sorted_directories] (tl sorted_directories))"

text \<open>\<open>mkdir\<close> returns nil (no action) for an empty list.\<close>

definition mkdir :: "flags \<Rightarrow> string list \<Rightarrow> Action option" where
  "mkdir f directories =
     (if directories = [] then None
      else Some (bash f [''mkdir -p '' @ Join (mkdir_arguments directories) '' '']))"


subsection \<open>The script parser (\<open>parsePorts\<close>, \<open>detectImage\<close>, \<open>parse\<close>, \<open>parseFile\<close>)\<close>

fun parsePorts_loop :: "(string \<rightharpoonup> int) \<Rightarrow> string list \<Rightarrow> error + (string \<rightharpoonup> int)" where
  "parsePorts_loop ports [] = Inr ports"
| "parsePorts_loop ports (pair # rest) =
     (let i = Index pair '':''
      in if i < 1 then Inl (InvalidPortMapping pair)
         else (case ParseInt (drop (nat i + 1) pair) of
                 Inl err \<Rightarrow> Inl (ParsingHostPort err)
               | Inr n \<Rightarrow> parsePorts_loop (ports(take (nat i) pair \<mapsto> n)) rest))"

definition parsePorts :: "string \<Rightarrow> error + (string \<rightharpoonup> int)" where
  "parsePorts input = parsePorts_loop Map.empty (Split input CHR '';'')"

definition detectImage :: "flags \<Rightarrow> string list \<Rightarrow> (string \<rightharpoonup> string) \<Rightarrow> string" where
  "detectImage f cmd options =
     (case options ''image'' of
        Some img \<Rightarrow> img
      | None \<Rightarrow>
          if cmd \<noteq> [] \<and> isCloudCommand (hd cmd) then cloudSDKImage f
          else defaultImage f)"

text \<open>
  One option after the \<open>#\<close>: \<open>key=value\<close> goes to the options map, a bare word is
  upper-cased and appended to the flags of the action.
\<close>

definition parse_option ::
  "world \<Rightarrow> (string \<rightharpoonup> string) \<times> string list \<Rightarrow> string \<Rightarrow> (string \<rightharpoonup> string) \<times> string list" where
  "parse_option w st option =
     (let n = Index option ''=''
      in if 0 \<le> n then ((fst st)(take (nat n) option \<mapsto> drop (nat n + 1) option), snd st)
         else (fst st, snd st @ [ToUpper (unicodeUpper w) option]))"

text \<open>
  \<open>parse\<close> returns a pointer to the action and an error; the pointer is modelled as
  an option, \<open>None\<close> for nil.
\<close>

definition parse :: "world \<Rightarrow> flags \<Rightarrow> string \<Rightarrow> error + Action option" where
  "parse w f line0 =
     (let n = Index line0 ''#'';
          (options, flags0) =
             (if 0 \<le> n
              then foldl (parse_option w) (Map.empty, [])
                     (Fields (TrimSpace (drop (nat n + 1) line0)))
              else (Map.empty, []));
          line = (if 0 \<le> n then take (nat n) line0 else line0);
          commands0 = Fields (TrimSpace line);
          background = (commands0 \<noteq> [] \<and> last commands0 = ''&'');
          commands = (if background then butlast commands0 else commands0);
          action1 =
            \<lparr>ImageUri = [],
             Entrypoint = (if commands0 \<noteq> [] then ''bash'' else []),
             Commands = (if commands0 \<noteq> [] then [''-c'', Join commands '' ''] else []),
             Flags = flags0 @ (if background then [''RUN_IN_BACKGROUND''] else []),
             Mounts = [],
             PortMappings = Map.empty,
             Timeout = [],
             PidNamespace = []\<rparr>
      in case (case options ''timeout'' of
                 None \<Rightarrow> Inr action1
               | Some t \<Rightarrow>
                   (case ParseDuration w t of
                      None \<Rightarrow> Inl (ParsingActionTimeout t)
                    | Some duration \<Rightarrow>
                        Inr (action1\<lparr>Timeout := formatSeconds w duration @ ''s''\<rparr>))) of
           Inl err \<Rightarrow> Inl err
         | Inr action2 \<Rightarrow>
             (let action3 = action2\<lparr>ImageUri := detectImage f commands options,
                                     Mounts := [googleRoot]\<rparr>
              in case options ''ports'' of
                   None \<Rightarrow> Inr (Some action3)
                 | Some v \<Rightarrow>
                     (case parsePorts v of
                        Inl err \<Rightarrow> Inl (ParsingPorts err)
                      | Inr ports \<Rightarrow> Inr (Some (action3\<lparr>PortMappings := ports\<rparr>)))))"

text \<open>
  The scanner loop of \<open>parseFile\<close>: the number of the last line read, the buffer of
  continued lines, the actions so far, the lines still to read.
\<close>

fun parseFile_loop ::
  "world \<Rightarrow> flags \<Rightarrow> nat \<Rightarrow> string \<Rightarrow> Action option list \<Rightarrow> string list
     \<Rightarrow> error + Action option list" where
  "parseFile_loop w f line buffer actions [] = Inr actions"
| "parseFile_loop w f line buffer actions (text # rest) =
     (if HasSuffix text [CHR 0x5C]
      then parseFile_loop w f (line + 1) (buffer @ butlast text) actions rest
      else (case parse w f (buffer @ text) of
              Inl err \<Rightarrow> Inl (LineError (line + 1) err)
            | Inr action \<Rightarrow>
                parseFile_loop w f (line + 1) []
                  (case action of None \<Rightarrow> actions | Some a \<Rightarrow> actions @ [Some a]) rest))"

definition parseFile_scan :: "world \<Rightarrow> flags \<Rightarrow> string list \<times> bool \<Rightarrow> error + Action option list" where
  "parseFile_scan w f scanner =
     (case parseFile_loop w f 0 [] [] (fst scanner) of
        Inl err \<Rightarrow> Inl err
      | Inr actions \<Rightarrow> if snd scanner then Inl ReadingScript else Inr actions)"

definition parseFile :: "world \<Rightarrow> flags \<Rightarrow> string \<Rightarrow> error + Action option list" where
  "parseFile w f filename =
     (if filename = ''-'' then parseFile_scan w f (stdinScript w)
      else (case decodeActions w filename of
              Some actions \<Rightarrow> Inr actions
            | None \<Rightarrow>
                (case openScript w filename of
                   None \<Rightarrow> Inl OpeningScript
                 | Some scanner \<Rightarrow> parseFile_scan w f scanner)))"

subsection \<open>Lists of flags (\<open>listOf\<close>, \<open>namedListOf\<close>, \<open>expandPrefixes\<close>)\<close>

definition listOf :: "string \<Rightarrow> string list" where
  "listOf input = (if input = [] then [] else Split input CHR '','')"

text \<open>
  \<open>namedListOf\<close> fills a map from the path of each entry to its name; \<open>n\<close> is the
  index of the entry in the comma-separated list.
\<close>

fun namedListOf_loop ::
  "string \<Rightarrow> (string \<times> string) list \<Rightarrow> nat \<Rightarrow> string list \<Rightarrow> (string \<times> string) list" where
  "namedListOf_loop defaultPrefix out n [] = out"
| "namedListOf_loop defaultPrefix out n (input # rest) =
     (let i = Index input ''=''
      in namedListOf_loop defaultPrefix
           (if 0 < i then AList.update (drop (nat i + 1) input) (take (nat i) input) out
            else if input \<noteq> [] then AList.update input (defaultPrefix @ decimal n) out
            else out)
           (n + 1) rest)"

definition namedListOf :: "string \<Rightarrow> string \<Rightarrow> (string \<times> string) list" where
  "namedListOf input defaultPrefix = namedListOf_loop defaultPrefix [] 0 (Split input CHR '','')"

definition expandPrefixes ::
  "world \<Rightarrow> string \<Rightarrow> string list \<Rightarrow> (string \<Rightarrow> error + string list) \<Rightarrow> error + string list" where
  "expandPrefixes w project input allValues =
     (let results = filter (\<lambda>item. \<not> HasSuffix item ''*'') input;
          prefixes = map butlast (filter (\<lambda>item. HasSuffix item ''*'') input)
      in if prefixes = [] then Inr results
         else if \<not> computeClient w then Inl CreatingComputeClient
         else if \<not> computeService w then Inl CreatingComputeService
         else (case allValues project of
                 Inl err \<Rightarrow> Inl err
               | Inr vals \<Rightarrow>
                   Inr (results @ filter (\<lambda>v. list_ex (\<lambda>p. HasPrefix v p) prefixes) vals)))"

definition listZones :: "world \<Rightarrow> string \<Rightarrow> error + string list" where
  "listZones w project =
     (case zonesList w project of None \<Rightarrow> Inl ListingZones | Some items \<Rightarrow> Inr items)"

definition listRegions :: "world \<Rightarrow> string \<Rightarrow> error + string list" where
  "listRegions w project =
     (case regionsList w project of None \<Rightarrow> Inl ListingRegions | Some items \<Rightarrow> Inr items)"

subsection \<open>Transfers (\<open>parseGCSPath\<close>, \<open>gcsJoin\<close>, \<open>gcsTransfer\<close>, \<open>upload\<close>, \<open>gcsFuse\<close>)\<close>

definition gcsPrefix :: string where
  "gcsPrefix = ''gs://''"

definition parseGCSPath :: "world \<Rightarrow> string \<Rightarrow> string \<times> bool" where
  "parseGCSPath w input =
     (case urlParse w input of
        None \<Rightarrow> ([], False)
      | Some host \<Rightarrow> (host, True))"

definition gcsJoin :: "string list \<Rightarrow> string" where
  "gcsJoin input =
     (let parts = map (\<lambda>part. TrimPrefix part gcsPrefix) input
      in if input \<noteq> [] \<and> HasPrefix (hd input) gcsPrefix then gcsPrefix @ path_Join parts
         else path_Join parts)"

definition gcsTransfer :: "flags \<Rightarrow> string \<Rightarrow> string \<Rightarrow> string \<Rightarrow> Action" where
  "gcsTransfer f remote from0 to0 =
     (let from = TrimRight from0 CHR ''*'';
          to = TrimRight to0 CHR ''*''
      in if HasSuffix remote ''/**'' then gsutil f [''-m'', ''cp'', ''-r'', gcsJoin [from, ''*''], to]
         else if HasSuffix remote ''/*'' then gsutil f [''-m'', ''cp'', gcsJoin [from, ''*''], to]
         else gsutil f [''cp'', from, to])"

definition upload :: "world \<Rightarrow> flags \<Rightarrow> string \<Rightarrow> string \<Rightarrow> error + Action" where
  "upload w f input out =
     (case ReadFile w input of
        None \<Rightarrow> Inl ReadingInputFile
      | Some raw \<Rightarrow>
          (let encoded = EncodeToString w raw
           in Inr (bash f
                [''mkdir -p '' @ Quote w (path_Dir out),
                 ''echo '' @ Quote w encoded @ '' | base64 -d > '' @ Quote w out])))"

definition gcsFuse :: "(string \<times> string) list \<Rightarrow> Action list" where
  "gcsFuse buckets =
     concat (map (\<lambda>(bucket, path).
       [\<lparr>ImageUri = ''gcr.io/cloud-genomics-pipelines/gcsfuse'',
         Entrypoint = [],
         Commands = [''--implicit-dirs'', ''--foreground'', bucket, path],
         Flags = [''ENABLE_FUSE'', ''RUN_IN_BACKGROUND''],
         Mounts = [googleRoot],
         PortMappings = Map.empty,
         Timeout = [],
         PidNamespace = []\<rparr>,
        \<lparr>ImageUri = ''gcr.io/cloud-genomics-pipelines/gcsfuse'',
         Entrypoint = [],
         Commands = [''wait'', path],
         Flags = [],
         Mounts = [googleRoot],
         PortMappings = Map.empty,
         Timeout = [],
         PidNamespace = []\<rparr>]) buckets)"

subsection \<open>Disks and scopes (\<open>addRequiredDisks\<close>, \<open>addRequiredScopes\<close>)\<close>

text \<open>
  The set \<open>disks\<close> is a Go map from disk name to \<open>true\<close>; the second loop ranges over
  it, so the order of the new disks is the order of that \<open>range\<close>.
\<close>

definition required_disks :: "Action list \<Rightarrow> (string \<times> bool) list" where
  "required_disks actions =
     foldl (\<lambda>disks mount. AList.update (Disk mount) True disks) []
       (concat (map Mounts actions))"

definition addRequiredDisks :: "world \<Rightarrow> flags \<Rightarrow> Pipeline \<Rightarrow> Pipeline" where
  "addRequiredDisks w f pipeline =
     (let disks = required_disks (Actions pipeline);
          vm = VM (Pipeline_Resources pipeline);
          new = map (\<lambda>(nm, _).
                  \<lparr>Name = nm,
                   Type = diskType f,
                   SizeGb = diskSizeGb f,
                   SourceImage =
                     (if diskImage f \<noteq> [] \<and> nm = Disk googleRoot then diskImage f else [])\<rparr>)
                (go_range (rangeDisks w) disks);
          vm1 = vm\<lparr>Disks := Disks vm @ new\<rparr>;
          vm2 = (if 0 < bootDiskSizeGb f then vm1\<lparr>BootDiskSizeGb := bootDiskSizeGb f\<rparr> else vm1)
      in pipeline\<lparr>Pipeline_Resources := (Pipeline_Resources pipeline)\<lparr>VM := vm2\<rparr>\<rparr>)"

definition storageScope :: string where
  "storageScope = ''https://www.googleapis.com/auth/devstorage.read_write''"

fun addRequiredScopes_loop :: "flags \<Rightarrow> string list \<Rightarrow> Action list \<Rightarrow> string list" where
  "addRequiredScopes_loop f scps [] = scps"
| "addRequiredScopes_loop f scps (action # rest) =
     (if ImageUri action = cloudSDKImage f
         \<or> (Commands action \<noteq> [] \<and> isCloudCommand (hd (Commands action)))
      then scps @ [storageScope]
      else addRequiredScopes_loop f scps rest)"

definition addRequiredScopes :: "flags \<Rightarrow> Pipeline \<Rightarrow> Pipeline" where
  "addRequiredScopes f pipeline =
     (let res = Pipeline_Resources pipeline;
          vm = VM res;
          account = VM_ServiceAccount vm
      in pipeline\<lparr>Pipeline_Resources :=
           res\<lparr>VM := vm\<lparr>VM_ServiceAccount :=
             account\<lparr>Scopes := addRequiredScopes_loop f (Scopes account) (Actions pipeline)\<rparr>\<rparr>\<rparr>\<rparr>)"

text \<open>The condition under which \<open>addRequiredScopes\<close> takes an action as using the cloud SDK.\<close>

definition needs_storage :: "flags \<Rightarrow> Action \<Rightarrow> bool" where
  "needs_storage f action =
     (ImageUri action = cloudSDKImage f
      \<or> (Commands action \<noteq> [] \<and> isCloudCommand (hd (Commands action))))"

subsection \<open>The request assembler (\<open>buildRequest\<close>)\<close>

definition googlePath :: "string \<Rightarrow> string" where
  "googlePath directory = path_Join [Path googleRoot, ''.google'', directory]"

definition inputRoot :: string where
  "inputRoot = googlePath ''input''"

definition outputRoot :: string where
  "outputRoot = googlePath ''output''"

text \<open>
  The variables that the localization loops of \<open>buildRequest\<close> update: the
  directories to create, the global \<open>environment\<close> map, the buckets to mount, and
  the two action lists.
\<close>

record staging =
  st_directories :: "string list"
  st_environment :: "string \<rightharpoonup> string"
  st_buckets :: "(string \<times> string) list"
  st_localizers :: "Action list"
  st_delocalizers :: "Action list"

definition staging_init :: "flags \<Rightarrow> staging" where
  "staging_init f =
     \<lparr>st_directories = [googlePath ''tmp''],
      st_environment = (environment f)(''TMPDIR'' \<mapsto> googlePath ''tmp''),
      st_buckets = [],
      st_localizers = [],
      st_delocalizers = []\<rparr>"

text \<open>The body of the loop over the inputs; \<open>continue\<close> skips the test for a glob.\<close>

definition localize_input ::
  "world \<Rightarrow> flags \<Rightarrow> staging \<Rightarrow> string \<times> string \<Rightarrow> error + staging" where
  "localize_input w f st entry =
     (let input = fst entry;
          nm = snd entry;
          filename = gcsJoin [inputRoot, TrimRight input CHR ''*''];
          st1 = st\<lparr>st_environment := (st_environment st)(nm \<mapsto> filename)\<rparr>;
          glob = (\<lambda>s. if HasSuffix input ''*''
                       then s\<lparr>st_directories := st_directories s @ [filename]\<rparr> else s)
      in if snd (parseGCSPath w input)
         then (if fuse f
               then Inr (st1\<lparr>st_buckets :=
                      AList.update (fst (parseGCSPath w input))
                        (path_Join [inputRoot, fst (parseGCSPath w input)]) (st_buckets st1)\<rparr>)
               else Inr (glob (st1\<lparr>st_localizers :=
                      st_localizers st1 @ [gcsTransfer f input input filename]\<rparr>)))
         else (case upload w f input filename of
                 Inl err \<Rightarrow> Inl (Processing input err)
               | Inr action \<Rightarrow>
                   Inr (glob (st1\<lparr>st_localizers := st_localizers st1 @ [action]\<rparr>))))"

fun localize_inputs ::
  "world \<Rightarrow> flags \<Rightarrow> staging \<Rightarrow> (string \<times> string) list \<Rightarrow> error + staging" where
  "localize_inputs w f st [] = Inr st"
| "localize_inputs w f st (entry # rest) =
     (case localize_input w f st entry of
        Inl err \<Rightarrow> Inl err
      | Inr st1 \<Rightarrow> localize_inputs w f st1 rest)"

definition mount_buckets :: "world \<Rightarrow> staging \<Rightarrow> staging" where
  "mount_buckets w st =
     (if st_buckets st \<noteq> []
      then st\<lparr>st_directories := st_directories st @ map snd (go_range (rangeBuckets w) (st_buckets st)),
              st_localizers := st_localizers st @ gcsFuse (go_range (rangeFuse w) (st_buckets st))\<rparr>
      else st)"

definition delocalize_output :: "flags \<Rightarrow> staging \<Rightarrow> string \<times> string \<Rightarrow> staging" where
  "delocalize_output f st entry =
     (let out = fst entry;
          nm = snd entry;
          filename = gcsJoin [outputRoot, TrimRight out CHR ''*'']
      in st\<lparr>st_delocalizers := st_delocalizers st @ [gcsTransfer f out filename out],
            st_environment := (st_environment st)(nm \<mapsto> filename),
            st_directories := st_directories st @
              [if HasSuffix out ''*'' then filename else path_Dir filename]\<rparr>)"

definition upload_log :: "flags \<Rightarrow> staging \<Rightarrow> staging" where
  "upload_log f st =
     (if output f \<noteq> []
      then st\<lparr>st_delocalizers := st_delocalizers st @
             [(gsutil f [''cp'', ''/google/logs/output'', output f])\<lparr>Flags := [''ALWAYS_RUN'']\<rparr>]\<rparr>
      else st)"

text \<open>The localization plan: everything \<open>buildRequest\<close> does before it reads the script.\<close>

definition plan :: "world \<Rightarrow> flags \<Rightarrow> error + staging" where
  "plan w f =
     (case localize_inputs w f (staging_init f)
             (go_range (rangeInputs w) (namedListOf (inputs f) ''INPUT'')) of
        Inl err \<Rightarrow> Inl err
      | Inr st \<Rightarrow>
          Inr (upload_log f
                 (foldl (delocalize_output f) (mount_buckets w st)
                    (go_range (rangeOutputs w) (namedListOf (outputs f) ''OUTPUT'')))))"

text \<open>
  The list \<open>actions\<close>: the periodic copy of the log when asked for, then the actions
  of the file or of the single command.  The entries are pointers.
\<close>

definition periodic_log :: "world \<Rightarrow> flags \<Rightarrow> Action option list" where
  "periodic_log w f =
     (if outputInterval f \<noteq> 0 \<and> output f \<noteq> []
      then [Some ((bash f [''while true; do sleep '' @ formatSeconds w (outputInterval f)
                            @ ''; gsutil -q cp /google/logs/output '' @ output f @ ''; done''])
                  \<lparr>Flags := [''RUN_IN_BACKGROUND'']\<rparr>)]
      else [])"

definition script_actions :: "world \<Rightarrow> flags \<Rightarrow> string \<Rightarrow> error + Action option list" where
  "script_actions w f filename =
     (if filename \<noteq> []
      then (case parseFile w f filename of
              Inl err \<Rightarrow> Inl (CreatingPipelineFromFile err)
            | Inr v \<Rightarrow> Inr (periodic_log w f @ v))
      else if command f \<noteq> []
      then (case parse w f (command f) of
              Inl err \<Rightarrow> Inl (CreatingActionFromCommand err)
            | Inr action \<Rightarrow> Inr (periodic_log w f @ [action]))
      else Inl NoCommandOrInputFile)"

definition new_vm :: "flags \<Rightarrow> VirtualMachine" where
  "new_vm f =
     \<lparr>MachineType = machineType f,
      VM_Network =
        \<lparr>Network_Name = (if network f \<noteq> [] then network f else []),
         Subnetwork = (if subnetwork f \<noteq> [] then subnetwork f else []),
         UsePrivateAddress = privateAddress f\<rparr>,
      VM_ServiceAccount = \<lparr>Email = serviceAccount f, Scopes = listOf (scopes f)\<rparr>,
      VM_Labels = vmLabels f,
      BootImage =
        (if cosChannel f \<noteq> [] then ''projects/cos-cloud/global/images/family/cos-'' @ cosChannel f
         else []),
      Accelerators =
        (if 0 < gpus f then [\<lparr>Accelerator_Type = gpuType f, Count = gpus f\<rparr>] else []),
      Disks = [],
      BootDiskSizeGb = 0,
      Preemptible = False\<rparr>"

definition new_resources :: "world \<Rightarrow> flags \<Rightarrow> string \<Rightarrow> error + Resources" where
  "new_resources w f project =
     (if regions f \<noteq> [] \<and> zones f \<noteq> [] then Inl BothZonesAndRegions
      else (case (if regions f \<noteq> []
                  then (case expandPrefixes w project (listOf (regions f)) (listRegions w) of
                          Inl err \<Rightarrow> Inl (ExpandingRegions err)
                        | Inr rs \<Rightarrow> Inr rs)
                  else Inr []) of
              Inl err \<Rightarrow> Inl err
            | Inr rs \<Rightarrow>
                (case (if zones f \<noteq> []
                       then (case expandPrefixes w project (listOf (zones f)) (listZones w) of
                               Inl err \<Rightarrow> Inl (ExpandingZones err)
                             | Inr zs \<Rightarrow> Inr zs)
                       else Inr []) of
                   Inl err \<Rightarrow> Inl err
                 | Inr zs \<Rightarrow>
                     Inr \<lparr>ProjectId = project,
                          Regions = rs,
                          Zones = (if length zs + length rs = 0 then [''us-east1-d''] else zs),
                          VM = new_vm f\<rparr>)))"

text \<open>
  The pointers placed in \<open>pipeline.Actions\<close>, in the order of the appends: the
  result of \<open>mkdir\<close>, the ssh server if asked for, then the three lists in turn.
\<close>

definition pipeline_actions ::
  "flags \<Rightarrow> string \<Rightarrow> staging \<Rightarrow> Action option list \<Rightarrow> Action option list" where
  "pipeline_actions f project st actions =
     foldl (@)
       ([mkdir f (st_directories st)] @ (if ssh f then [Some (sshDebug project)] else []))
       [map Some (st_localizers st), actions, map Some (st_delocalizers st)]"

definition share_pids :: "flags \<Rightarrow> Action \<Rightarrow> Action" where
  "share_pids f action = (if sharePIDs f then action\<lparr>PidNamespace := ''shared''\<rparr> else action)"

text \<open>
  \<open>buildRequest\<close>.  A file that decodes as a request is returned as it is.  Otherwise
  the errors come in the order of the source: localization, script, zones and regions;
  then \<open>addRequiredDisks\<close> reads every action through its pointer and panics on nil.
\<close>

definition buildRequest :: "world \<Rightarrow> flags \<Rightarrow> string \<Rightarrow> string \<Rightarrow> error + RunPipelineRequest" where
  "buildRequest w f filename project =
     (case (if filename \<noteq> [] then decodeRequest w filename else None) of
        Some req \<Rightarrow> Inr req
      | None \<Rightarrow>
          (case plan w f of
             Inl err \<Rightarrow> Inl err
           | Inr st \<Rightarrow>
               (case script_actions w f filename of
                  Inl err \<Rightarrow> Inl err
                | Inr actions \<Rightarrow>
                    (case new_resources w f project of
                       Inl err \<Rightarrow> Inl err
                     | Inr res \<Rightarrow>
                         (let pointers = pipeline_actions f project st actions
                          in if None \<in> set pointers then Inl NilPointerDereference
                             else (let pipeline0 =
                                         \<lparr>Actions = map the pointers,
                                          Environment = st_environment st,
                                          Pipeline_Resources = res,
                                          Pipeline_Timeout = []\<rparr>;
                                       pipeline1 = addRequiredScopes f (addRequiredDisks w f pipeline0);
                                       pipeline2 = pipeline1\<lparr>Actions := map (share_pids f) (Actions pipeline1)\<rparr>;
                                       pipeline3 =
                                         (if timeout f \<noteq> 0
                                          then pipeline2\<lparr>Pipeline_Timeout := formatSeconds w (timeout f) @ ''s''\<rparr>
                                          else pipeline2)
                                   in Inr \<lparr>Request_Pipeline = pipeline3,
                                           Labels = (if name f \<noteq> [] then (labels f)(''name'' \<mapsto> name f)
                                                     else labels f)\<rparr>))))))"

subsection \<open>The execution controller (\<open>runPipeline\<close>)\<close>

text \<open>
  The pipelines service as \<open>runPipeline\<close> meets it: whether the k-th call of
  \<open>Pipelines.Run\<close> (counted from 0) is accepted, and what \<open>watch.Invoke\<close> reports for
  the operation it started: success, an error that \<open>IsRetriable\<close>, or another error.
\<close>

datatype outcome = Succeeded | Retriable | Fatal

record service =
  accepts :: "nat \<Rightarrow> bool"
  watch :: "nat \<Rightarrow> outcome"

text \<open>
  The loop of \<open>runPipeline\<close>.  \<open>attempt\<close>, \<open>pvmAttempts\<close> and \<open>attempts\<close> are Go
  \<open>uint\<close>s, words of the width of the platform, and \<open>pvmAttempts + attempts\<close> wraps
  around.  \<open>submitted\<close> is the trace of the calls of \<open>Pipelines.Run\<close> so far: the
  value of \<open>Preemptible\<close> in each request.  The result is the trace and the error
  returned (\<open>None\<close> for nil).
\<close>

function runPipeline_loop ::
  "service \<Rightarrow> bool \<Rightarrow> 'a::len word \<Rightarrow> 'a word \<Rightarrow> 'a word \<Rightarrow> bool list
     \<Rightarrow> bool list \<times> error option" where
  "runPipeline_loop srv waiting pvm att attempt submitted =
     (if \<not> accepts srv (length submitted)
      then (submitted @ [attempt \<le> pvm], Some StartingPipeline)
      else if \<not> waiting
      then (submitted @ [attempt \<le> pvm], None)
      else if watch srv (length submitted) = Succeeded
      then (submitted @ [attempt \<le> pvm], None)
      else if watch srv (length submitted) = Retriable \<and> attempt < pvm + att
      then runPipeline_loop srv waiting pvm att (attempt + 1) (submitted @ [attempt \<le> pvm])
      else (submitted @ [attempt \<le> pvm], Some OperationFailed))"
  by pat_completeness auto
termination
proof (relation "measure (\<lambda>(srv, waiting, pvm, att, attempt, submitted). unat (pvm + att) - unat attempt)")
  show "wf (measure (\<lambda>(srv, waiting, pvm, att, attempt, submitted). unat (pvm + att) - unat attempt))"
    by simp
next
  fix srv :: service and waiting :: bool and pvm att attempt :: "'a word" and submitted :: "bool list"
  assume "\<not> \<not> accepts srv (length submitted)" "\<not> \<not> waiting"
    "watch srv (length submitted) \<noteq> Succeeded"
    "watch srv (length submitted) = Retriable \<and> attempt < pvm + att"
  then have lt: "attempt < pvm + att" by simp
  then have "unat attempt < unat (pvm + att)" by (simp add: word_less_nat_alt)
  moreover have "unat (pvm + att) < 2 ^ LENGTH('a)" by simp
  ultimately have "unat attempt + 1 < 2 ^ LENGTH('a)" by linarith
  then have "unat (attempt + 1) = unat attempt + 1" by (simp add: unat_word_ariths)
  moreover have "unat attempt < unat (pvm + att)" using lt by (simp add: word_less_nat_alt)
  ultimately show "((srv, waiting, pvm, att, attempt + 1, submitted @ [attempt \<le> pvm]),
                    (srv, waiting, pvm, att, attempt, submitted))
    \<in> measure (\<lambda>(srv, waiting, pvm, att, attempt, submitted). unat (pvm + att) - unat attempt)"
    by simp
qed

declare runPipeline_loop.simps [simp del]

definition runPipeline ::
  "service \<Rightarrow> bool \<Rightarrow> 'a::len word \<Rightarrow> 'a word \<Rightarrow> bool list \<times> error option" where
  "runPipeline srv waiting pvm att = runPipeline_loop srv waiting pvm att 1 []"

text \<open>
  \<open>Invoke\<close>, after the flags are parsed: \<open>filenames\<close> are the positional
  arguments.  The request is built and printed; nothing is submitted for a dry run
  or when both budgets are zero.  The result is the request that was printed, the
  trace of the submissions, and the error returned.
\<close>

definition Invoke ::
  "world \<Rightarrow> service \<Rightarrow> flags \<Rightarrow> 'a::len word \<Rightarrow> 'a word \<Rightarrow> string \<Rightarrow> string list
     \<Rightarrow> RunPipelineRequest option \<times> bool list \<times> error option" where
  "Invoke w srv f pvm att project filenames =
     (if 1 < length filenames then (None, [], Some OnlySingleInputFile)
      else (case buildRequest w f (if filenames = [] then [] else hd filenames) project of
              Inl err \<Rightarrow> (None, [], Some (BuildingRequest err))
            | Inr req \<Rightarrow>
                if \<not> MarshalIndent w req then (None, [], Some EncodingRequest)
                else if dryRun f \<or> (att = 0 \<and> pvm = 0) then (Some req, [], None)
                else (Some req, runPipeline srv (wait f) pvm att)))"

subsection \<open>Notions used to state the properties\<close>




text \<open>
  The flags at the defaults that run.go declares for them, and an outside world for
  the examples: no file can be read or decoded, \<open>url.Parse\<close> accepts its argument
  (as it does for \<open>gs://bucket/object\<close>, with host \<open>bucket\<close>, and for a plain path
  such as \<open>/etc/motd\<close>, with an empty host), \<open>%q\<close> puts double quotes around a text
  that needs no escapes, and every \<open>range\<close> takes the entries in the order of
  insertion.
\<close>

definition default_flags :: flags where
  "default_flags =
     \<lparr>name = [], scopes = [], zones = [], regions = [], output = [], dryRun = False,
      wait = True, machineType = ''n1-standard-1'', inputs = [], outputs = [],
      diskSizeGb = 0, diskType = [], diskImage = [], bootDiskSizeGb = 0,
      privateAddress = False, cloudSDKImage = ''gcr.io/cloud-genomics-pipelines/io'',
      timeout = 0, defaultImage = ''bash'', gpus = 0, gpuType = ''nvidia-tesla-k80'',
      command = [], fuse = False, ssh = False, network = [], subnetwork = [],
      sharePIDs = False, cosChannel = [], serviceAccount = [], outputInterval = 0,
      environment = Map.empty, labels = Map.empty, vmLabels = Map.empty\<rparr>"

definition example_world :: world where
  "example_world =
     \<lparr>urlParse = (\<lambda>s. if HasPrefix s ''gs://''
                        then Some (takeWhile (\<lambda>c. c \<noteq> CHR ''/'') (drop 5 s))
                        else Some []),
      ReadFile = (\<lambda>_. None),
      EncodeToString = (\<lambda>s. s),
      Quote = (\<lambda>s. [CHR 0x22] @ s @ [CHR 0x22]),
      unicodeUpper = (\<lambda>s. s),
      ParseDuration = (\<lambda>_. None),
      formatSeconds = (\<lambda>_. ''0''),
      decodeRequest = (\<lambda>_. None),
      decodeActions = (\<lambda>_. None),
      MarshalIndent = (\<lambda>_. True),
      openScript = (\<lambda>_. None),
      stdinScript = ([], False),
      computeClient = True,
      computeService = True,
      zonesList = (\<lambda>_. None),
      regionsList = (\<lambda>_. None),
      rangeInputs = [],
      rangeBuckets = [],
      rangeFuse = [],
      rangeOutputs = [],
      rangeDisks = []\<rparr>"

text \<open>The disks that \<open>addRequiredDisks\<close> appended to the list of the virtual machine.\<close>

definition new_disks :: "Pipeline \<Rightarrow> Pipeline \<Rightarrow> Disk list" where
  "new_disks before after =
     drop (length (Disks (VM (Pipeline_Resources before)))) (Disks (VM (Pipeline_Resources after)))"

text \<open>Two pipelines for the examples: two copies by gsutil, and one action mounting disks a, b, a.\<close>

definition two_copy_pipeline :: Pipeline where
  "two_copy_pipeline =
     \<lparr>Actions = [gsutil default_flags [''cp'', ''a'', ''b''],
                 gsutil default_flags [''cp'', ''c'', ''d'']],
      Environment = Map.empty,
      Pipeline_Resources =
        \<lparr>ProjectId = ''p'', Regions = [], Zones = [], VM = new_vm default_flags\<rparr>,
      Pipeline_Timeout = []\<rparr>"

definition two_disk_pipeline :: Pipeline where
  "two_disk_pipeline =
     \<lparr>Actions = [\<lparr>ImageUri = ''bash'', Entrypoint = [], Commands = [], Flags = [],
                  Mounts = [\<lparr>Disk = ''a'', Path = ''/a''\<rparr>, \<lparr>Disk = ''b'', Path = ''/b''\<rparr>,
                            \<lparr>Disk = ''a'', Path = ''/c''\<rparr>],
                  PortMappings = Map.empty, Timeout = [], PidNamespace = []\<rparr>],
      Environment = Map.empty,
      Pipeline_Resources = \<lparr>ProjectId = ''p'', Regions = [], Zones = [], VM = new_vm default_flags\<rparr>,
      Pipeline_Timeout = []\<rparr>"


text \<open>
  The entries of a comma-separated list of specifiers as \<open>namedListOf\<close> reads them:
  an entry counts if it has a \<open>=\<close> after its first byte or is not empty; its path is
  the text after the first \<open>=\<close>, or the whole entry; its name is the text before
  the first \<open>=\<close>, or the default prefix followed by the index of the entry in the
  list.  \<open>named_entries\<close> lists path and name of the entries that count, in order.
\<close>

definition entry_kept :: "string \<Rightarrow> bool" where
  "entry_kept e = (0 < Index e ''='' \<or> e \<noteq> [])"

definition entry_path :: "string \<Rightarrow> string" where
  "entry_path e = (if 0 < Index e ''='' then drop (nat (Index e ''='') + 1) e else e)"

definition entry_name :: "string \<Rightarrow> nat \<Rightarrow> string \<Rightarrow> string" where
  "entry_name defaultPrefix n e =
     (if 0 < Index e ''='' then take (nat (Index e ''='')) e else defaultPrefix @ decimal n)"

fun named_entries :: "string \<Rightarrow> nat \<Rightarrow> string list \<Rightarrow> (string \<times> string) list" where
  "named_entries defaultPrefix n [] = []"
| "named_entries defaultPrefix n (e # es) =
     (if entry_kept e then [(entry_path e, entry_name defaultPrefix n e)] else [])
     @ named_entries defaultPrefix (n + 1) es"

text \<open>Flags for the examples: a command with inputs, an output and the ssh server; and inputs that repeat a path.\<close>

definition example_flags :: flags where
  "example_flags =
     default_flags\<lparr>command := ''echo hi'',
                   inputs := ''gs://b/dir/x,REF=/etc/motd,gs://b/all/*'',
                   outputs := ''OUT=gs://b/res/y'',
                   ssh := True,
                   output := ''gs://b/log''\<rparr>"

definition repeated_flags :: flags where
  "repeated_flags =
     default_flags\<lparr>command := ''echo hi'',
                   inputs := ''A=gs://b/x,B=gs://b/x,,gs://b/y''\<rparr>"

section \<open>Properties\<close>

subsection \<open>The directory merger\<close>












subsection \<open>The script parser\<close>

lemmas library_defs =
  Fields_def TrimSpace_def spaceWidth_def spaceWidthRev_def asciiSpace_def unicodeSpaces_def
  ToUpper_def upperASCII_def ParseInt_def ParseUint_def isDigit_def HasPrefix_def HasSuffix_def
  suffix_to_prefix

text \<open>The definitions that evaluate \<open>buildRequest\<close> on a concrete input.\<close>

lemmas eval_defs = buildRequest_def plan_def script_actions_def new_resources_def pipeline_actions_def
  periodic_log_def parse_def parse_option_def detectImage_def namedListOf_def staging_init_def localize_input_def
  mount_buckets_def delocalize_output_def upload_log_def parseGCSPath_def gcsJoin_def gcsTransfer_def
  gsutil_def bash_def googlePath_def inputRoot_def outputRoot_def path_Join_def path_Dir_def Clean_def
  TrimRight_def TrimPrefix_def gcsPrefix_def mkdir_def mkdir_arguments_def sshDebug_def new_vm_def listOf_def
  addRequiredDisks_def addRequiredScopes_def required_disks_def share_pids_def isCloudCommand_def
  googleRoot_def storageScope_def example_world_def default_flags_def example_flags_def repeated_flags_def
  upload_def decimal.simps

text \<open>
  Claim C8.  Parsing the script line \<open>echo hi &  # ports=a:1;b:2 image=foo\<close> yields
  an action with the flag RUN_IN_BACKGROUND, image \<open>foo\<close>, the port map from \<open>a\<close> to
  1 and from \<open>b\<close> to 2, entrypoint \<open>bash\<close> and the arguments \<open>-c\<close> and \<open>echo hi\<close>,
  whatever the configured images are.
\<close>

theorem parse_example_line:
  "parse w f ''echo hi &  # ports=a:1;b:2 image=foo'' =
     Inr (Some \<lparr>ImageUri = ''foo'',
                Entrypoint = ''bash'',
                Commands = [''-c'', ''echo hi''],
                Flags = [''RUN_IN_BACKGROUND''],
                Mounts = [googleRoot],
                PortMappings = [''a'' \<mapsto> 1, ''b'' \<mapsto> 2],
                Timeout = [],
                PidNamespace = []\<rparr>)"
  by (simp add: parse_def parse_option_def parsePorts_def detectImage_def library_defs Let_def)




lemma isDigit_sign: "\<not> isDigit CHR ''-''" "\<not> isDigit CHR ''+''"
  by (simp_all add: isDigit_def)








text \<open>
  Claim C2 does not hold of the code.  \<open>parse\<close> never returns a nil action without
  an error, so the test \<open>action != nil\<close> of \<open>parseFile\<close> never skips a line: a line of
  white space yields an action with the default image and no command, and a script
  of three lines with a blank one in the middle yields three actions.
\<close>

theorem parse_blank_line:
  "parse w f line \<noteq> Inr None
   \<and> parse w f ''   '' =
       Inr (Some \<lparr>ImageUri = defaultImage f, Entrypoint = [], Commands = [], Flags = [],
                  Mounts = [googleRoot], PortMappings = Map.empty, Timeout = [],
                  PidNamespace = []\<rparr>)
   \<and> (\<exists>a b c. parseFile_scan w f ([''echo a'', ''   '', ''echo b''], False)
                  = Inr [Some a, Some b, Some c] \<and> Commands b = [])"
proof -
  have 1: "parse w f line \<noteq> Inr None"
    by (auto simp: parse_def Let_def split: prod.splits option.splits sum.splits)
  have 2: "parse w f ''   '' =
       Inr (Some \<lparr>ImageUri = defaultImage f, Entrypoint = [], Commands = [], Flags = [],
                  Mounts = [googleRoot], PortMappings = Map.empty, Timeout = [],
                  PidNamespace = []\<rparr>)"
    by (simp add: parse_def detectImage_def library_defs Let_def)
  have 3: "\<exists>a b c. parseFile_scan w f ([''echo a'', ''   '', ''echo b''], False)
                   = Inr [Some a, Some b, Some c] \<and> Commands b = []"
    by (simp add: parseFile_scan_def parse_def detectImage_def library_defs Let_def)
  show ?thesis using 1 2 3 by blast
qed


subsection \<open>What \<open>buildRequest\<close> assembles\<close>

lemma Actions_addRequiredScopes: "Actions (addRequiredScopes f p) = Actions p"
  by (simp add: addRequiredScopes_def Let_def)

lemma Actions_addRequiredDisks: "Actions (addRequiredDisks w f p) = Actions p"
  by (simp add: addRequiredDisks_def Let_def)

lemma pipeline_actions_eq:
  "pipeline_actions f project st actions =
     [mkdir f (st_directories st)] @ (if ssh f then [Some (sshDebug project)] else [])
       @ map Some (st_localizers st) @ actions @ map Some (st_delocalizers st)"
  by (simp add: pipeline_actions_def)

lemma no_nil_map_Some: "None \<notin> set xs \<Longrightarrow> \<exists>ys. xs = map Some ys"
proof (induction xs)
  case Nil
  then show ?case by simp
next
  case (Cons x xs)
  then obtain ys where "xs = map Some ys" by auto
  moreover from Cons.prems obtain y where "x = Some y" by (cases x) auto
  ultimately have "x # xs = map Some (y # ys)" by simp
  then show ?case by (rule exI)
qed

lemma new_resources_VM: "new_resources w f project = Inr res \<Longrightarrow> VM res = new_vm f"
  by (auto simp: new_resources_def split: if_splits sum.splits)

lemma buildRequest_assembled:
  assumes "buildRequest w f filename project = Inr req"
    and "filename = [] \<or> decodeRequest w filename = None"
  shows "\<exists>st actions res. plan w f = Inr st \<and> script_actions w f filename = Inr actions
     \<and> new_resources w f project = Inr res
     \<and> None \<notin> set (pipeline_actions f project st actions)
     \<and> Actions (Request_Pipeline req)
         = map (share_pids f) (map the (pipeline_actions f project st actions))
     \<and> Environment (Request_Pipeline req) = st_environment st
     \<and> Pipeline_Resources (Request_Pipeline req)
         = Pipeline_Resources (addRequiredScopes f (addRequiredDisks w f
             \<lparr>Actions = map the (pipeline_actions f project st actions),
              Environment = st_environment st,
              Pipeline_Resources = res,
              Pipeline_Timeout = []\<rparr>))"
proof -
  have nodec: "(if filename \<noteq> [] then decodeRequest w filename else None) = None"
    using assms(2) by auto
  from assms(1) obtain st where st: "plan w f = Inr st"
    unfolding buildRequest_def nodec by (cases "plan w f") auto
  from assms(1) st obtain actions where a: "script_actions w f filename = Inr actions"
    unfolding buildRequest_def nodec by (cases "script_actions w f filename") auto
  from assms(1) st a obtain res where r: "new_resources w f project = Inr res"
    unfolding buildRequest_def nodec by (cases "new_resources w f project") auto
  from assms(1) st a r have nn: "None \<notin> set (pipeline_actions f project st actions)"
    unfolding buildRequest_def nodec by (auto simp: Let_def split: if_splits)
  from assms(1) st a r nn
  have "Actions (Request_Pipeline req)
         = map (share_pids f) (map the (pipeline_actions f project st actions))
     \<and> Environment (Request_Pipeline req) = st_environment st
     \<and> Pipeline_Resources (Request_Pipeline req)
         = Pipeline_Resources (addRequiredScopes f (addRequiredDisks w f
             \<lparr>Actions = map the (pipeline_actions f project st actions),
              Environment = st_environment st,
              Pipeline_Resources = res,
              Pipeline_Timeout = []\<rparr>))"
    unfolding buildRequest_def nodec
    by (auto simp: Let_def Actions_addRequiredScopes Actions_addRequiredDisks
        addRequiredScopes_def addRequiredDisks_def split: if_splits)
  with st a r nn show ?thesis by blast
qed

subsection \<open>Scopes\<close>

lemma addRequiredScopes_loop_eq:
  "addRequiredScopes_loop f scps actions =
     scps @ (if list_ex (needs_storage f) actions then [storageScope] else [])"
  by (induction actions) (auto simp: needs_storage_def)

lemma addRequiredScopes_loop_first:
  "addRequiredScopes_loop f scps actions =
     addRequiredScopes_loop f scps
       (takeWhile (\<lambda>a. \<not> needs_storage f a) actions
        @ take 1 (dropWhile (\<lambda>a. \<not> needs_storage f a) actions))"
  by (induction actions) (auto simp: needs_storage_def)

lemma needs_storage_share_pids: "needs_storage f (share_pids f a) = needs_storage f a"
  by (simp add: needs_storage_def share_pids_def)

lemma Mounts_share_pids: "Mounts (share_pids f a) = Mounts a"
  by (simp add: share_pids_def)

lemma Scopes_addRequiredDisks:
  "VM_ServiceAccount (VM (Pipeline_Resources (addRequiredDisks w f p)))
     = VM_ServiceAccount (VM (Pipeline_Resources p))"
  by (simp add: addRequiredDisks_def Let_def)

lemma Disks_addRequiredScopes:
  "Disks (VM (Pipeline_Resources (addRequiredScopes f p))) = Disks (VM (Pipeline_Resources p))"
  by (simp add: addRequiredScopes_def Let_def)

lemma buildRequest_scopes:
  assumes "buildRequest w f filename project = Inr req"
    and "filename = [] \<or> decodeRequest w filename = None"
  shows "Scopes (VM_ServiceAccount (VM (Pipeline_Resources (Request_Pipeline req))))
     = listOf (scopes f)
       @ (if list_ex (needs_storage f) (Actions (Request_Pipeline req)) then [storageScope] else [])"
proof -
  from buildRequest_assembled [OF assms] obtain st actions res where
    r: "new_resources w f project = Inr res"
    and acts: "Actions (Request_Pipeline req)
         = map (share_pids f) (map the (pipeline_actions f project st actions))"
    and res: "Pipeline_Resources (Request_Pipeline req)
         = Pipeline_Resources (addRequiredScopes f (addRequiredDisks w f
             \<lparr>Actions = map the (pipeline_actions f project st actions),
              Environment = st_environment st,
              Pipeline_Resources = res,
              Pipeline_Timeout = []\<rparr>))"
    by blast
  have ex: "list_ex (needs_storage f) (Actions (Request_Pipeline req))
      = list_ex (needs_storage f) (map the (pipeline_actions f project st actions))"
    unfolding acts by (simp add: list_ex_iff needs_storage_share_pids)
  have "Scopes (VM_ServiceAccount (VM res)) = listOf (scopes f)"
    using new_resources_VM [OF r] by (simp add: new_vm_def)
  then show ?thesis
    unfolding res ex
    by (simp add: addRequiredScopes_def Let_def addRequiredScopes_loop_eq
        Scopes_addRequiredDisks Actions_addRequiredDisks)
qed


text \<open>
  Claim C6.  \<open>addRequiredScopes\<close> appends the storage read/write scope to the scopes
  of the service account once if some action has the cloud SDK image or a cloud
  command as its first command token, and appends nothing otherwise; the result is
  that of the actions up to and including the first such action alone, whatever
  follows it (the loop returns there); the actions are left as they are.  So in
  every request that \<open>buildRequest\<close> assembles the scopes are those of the flag
  \<open>scopes\<close>, followed by the storage scope once if some action of the pipeline
  qualifies.
\<close>

theorem addRequiredScopes_once:
  "Scopes (VM_ServiceAccount (VM (Pipeline_Resources (addRequiredScopes f p)))) =
     Scopes (VM_ServiceAccount (VM (Pipeline_Resources p)))
       @ (if list_ex (needs_storage f) (Actions p) then [storageScope] else [])
   \<and> addRequiredScopes f p =
       addRequiredScopes f
         (p\<lparr>Actions := takeWhile (\<lambda>a. \<not> needs_storage f a) (Actions p)
                        @ take 1 (dropWhile (\<lambda>a. \<not> needs_storage f a) (Actions p))\<rparr>)
         \<lparr>Actions := Actions p\<rparr>
   \<and> Actions (addRequiredScopes f p) = Actions p
   \<and> (\<forall>req. buildRequest w f filename project = Inr req
          \<longrightarrow> (filename = [] \<or> decodeRequest w filename = None)
          \<longrightarrow> Scopes (VM_ServiceAccount (VM (Pipeline_Resources (Request_Pipeline req))))
                = listOf (scopes f)
                  @ (if list_ex (needs_storage f) (Actions (Request_Pipeline req))
                     then [storageScope] else []))"
proof -
  have 1: "Scopes (VM_ServiceAccount (VM (Pipeline_Resources (addRequiredScopes f p)))) =
     Scopes (VM_ServiceAccount (VM (Pipeline_Resources p)))
       @ (if list_ex (needs_storage f) (Actions p) then [storageScope] else [])"
    by (simp add: addRequiredScopes_def Let_def addRequiredScopes_loop_eq)
  have 2: "addRequiredScopes f p =
       addRequiredScopes f
         (p\<lparr>Actions := takeWhile (\<lambda>a. \<not> needs_storage f a) (Actions p)
                        @ take 1 (dropWhile (\<lambda>a. \<not> needs_storage f a) (Actions p))\<rparr>)
         \<lparr>Actions := Actions p\<rparr>"
    using addRequiredScopes_loop_first [of f _ "Actions p"]
    by (simp add: addRequiredScopes_def Let_def)
  have 3: "Actions (addRequiredScopes f p) = Actions p"
    by (simp add: addRequiredScopes_def Let_def)
  show ?thesis
  proof (intro conjI allI impI)
    fix req
    assume r: "buildRequest w f filename project = Inr req"
      and h: "filename = [] \<or> decodeRequest w filename = None"
    show "Scopes (VM_ServiceAccount (VM (Pipeline_Resources (Request_Pipeline req))))
                = listOf (scopes f)
                  @ (if list_ex (needs_storage f) (Actions (Request_Pipeline req))
                     then [storageScope] else [])"
      by (rule buildRequest_scopes [OF r h])
  qed (rule 1, rule 2, rule 3)
qed

theorem addRequiredScopes_once_witness:
  "list_all (needs_storage default_flags) (Actions two_copy_pipeline)
   \<and> Scopes (VM_ServiceAccount (VM (Pipeline_Resources
         (addRequiredScopes default_flags two_copy_pipeline)))) = [storageScope]
   \<and> (\<exists>req. buildRequest example_world example_flags [] ''proj'' = Inr req
         \<and> Scopes (VM_ServiceAccount (VM (Pipeline_Resources (Request_Pipeline req))))
              = listOf (scopes example_flags)
                @ (if list_ex (needs_storage example_flags) (Actions (Request_Pipeline req))
                   then [storageScope] else []))"
proof -
  have q: "list_all (needs_storage default_flags) (Actions two_copy_pipeline)"
    by (simp add: two_copy_pipeline_def needs_storage_def gsutil_def bash_def)
  have "Scopes (VM_ServiceAccount (VM (Pipeline_Resources
          (addRequiredScopes default_flags two_copy_pipeline))))
        = Scopes (VM_ServiceAccount (VM (Pipeline_Resources two_copy_pipeline)))
          @ (if list_ex (needs_storage default_flags) (Actions two_copy_pipeline)
             then [storageScope] else [])"
    by (rule addRequiredScopes_once [of default_flags two_copy_pipeline, THEN conjunct1])
  also have "\<dots> = [storageScope]"
    by (simp add: two_copy_pipeline_def needs_storage_def gsutil_def bash_def new_vm_def
        default_flags_def listOf_def)
  finally have s: "Scopes (VM_ServiceAccount (VM (Pipeline_Resources
          (addRequiredScopes default_flags two_copy_pipeline)))) = [storageScope]" .
  have "\<exists>req. buildRequest example_world example_flags [] ''proj'' = Inr req"
    by (simp add: eval_defs library_defs Let_def)
  then obtain req where r: "buildRequest example_world example_flags [] ''proj'' = Inr req"
    by blast
  have h: "[] = [] \<or> decodeRequest example_world [] = None" by simp
  have t: "Scopes (VM_ServiceAccount (VM (Pipeline_Resources (Request_Pipeline req))))
              = listOf (scopes example_flags)
                @ (if list_ex (needs_storage example_flags) (Actions (Request_Pipeline req))
                   then [storageScope] else [])"
    by (rule addRequiredScopes_once [of example_flags _ example_world "[]" "''proj''",
          THEN conjunct2, THEN conjunct2, THEN conjunct2, rule_format, OF r h])
  show ?thesis
  proof (intro conjI exI)
    show "buildRequest example_world example_flags [] ''proj'' = Inr req" by (rule r)
  qed (rule q, rule s, rule t)
qed

subsection \<open>Disks\<close>

lemma mset_go_range: "mset (go_range seed xs) = mset xs"
proof (induction seed arbitrary: xs)
  case Nil
  then show ?case by simp
next
  case (Cons c seed)
  show ?case
  proof (cases "xs = []")
    case True
    then show ?thesis by simp
  next
    case False
    let ?i = "c mod length xs"
    have i: "?i < length xs" using False by simp
    have "mset xs = mset (take ?i xs @ xs ! ?i # drop (Suc ?i) xs)"
      using id_take_nth_drop [OF i] by simp
    then show ?thesis using False Cons.IH [of "take ?i xs @ drop (Suc ?i) xs"]
      by (simp add: Let_def)
  qed
qed

lemma set_go_range: "set (go_range seed xs) = set xs"
  using mset_go_range [of seed xs] by (metis set_mset_mset)

lemma distinct_go_range: "distinct (go_range seed xs) = distinct xs"
  using mset_go_range [of seed xs] by (metis mset_eq_imp_distinct_iff)

lemma length_go_range: "length (go_range seed xs) = length xs"
  using mset_go_range [of seed xs] by (metis size_mset)

lemma map_fst_go_range: "mset (map fst (go_range seed xs)) = mset (map fst xs)"
  by (simp add: mset_go_range)

lemma distinct_fst_go_range: "distinct (map fst (go_range seed xs)) = distinct (map fst xs)"
  using map_fst_go_range [of seed xs] by (metis mset_eq_imp_distinct_iff)

lemma required_disks_fold:
  "distinct (map fst acc) \<Longrightarrow>
   distinct (map fst (foldl (\<lambda>disks mount. AList.update (Disk mount) True disks) acc ms))
   \<and> fst ` set (foldl (\<lambda>disks mount. AList.update (Disk mount) True disks) acc ms)
       = fst ` set acc \<union> Disk ` set ms"
proof (induction ms arbitrary: acc)
  case Nil
  then show ?case by simp
next
  case (Cons m ms)
  have "distinct (map fst (AList.update (Disk m) True acc))"
    using Cons.prems by (simp add: distinct_update)
  from Cons.IH [OF this] show ?case by (auto simp: dom_update)
qed

lemma required_disks_keys:
  "distinct (map fst (required_disks actions))
   \<and> fst ` set (required_disks actions) = Disk ` (\<Union>a\<in>set actions. set (Mounts a))"
  unfolding required_disks_def
  using required_disks_fold [of "[]" "concat (map Mounts actions)"] by simp

lemma addRequiredDisks_new_disks:
  "Disks (VM (Pipeline_Resources (addRequiredDisks w f p)))
     = Disks (VM (Pipeline_Resources p)) @ new_disks p (addRequiredDisks w f p)
   \<and> distinct (map Name (new_disks p (addRequiredDisks w f p)))
   \<and> set (map Name (new_disks p (addRequiredDisks w f p)))
       = Disk ` (\<Union>a\<in>set (Actions p). set (Mounts a))
   \<and> mset (map Name (new_disks p (addRequiredDisks w f p)))
       = mset (map fst (required_disks (Actions p)))"
proof -
  let ?r = "go_range (rangeDisks w) (required_disks (Actions p))"
  have names: "map Name (new_disks p (addRequiredDisks w f p)) = map fst ?r"
    by (auto simp: new_disks_def addRequiredDisks_def Let_def split_beta)
  have app: "Disks (VM (Pipeline_Resources (addRequiredDisks w f p)))
     = Disks (VM (Pipeline_Resources p)) @ new_disks p (addRequiredDisks w f p)"
    by (auto simp: new_disks_def addRequiredDisks_def Let_def)
  have d: "distinct (map fst ?r)"
    using required_disks_keys [of "Actions p"] by (simp add: distinct_fst_go_range)
  have s: "set (map fst ?r) = Disk ` (\<Union>a\<in>set (Actions p). set (Mounts a))"
    using required_disks_keys [of "Actions p"] by (simp add: set_go_range)
  have m: "mset (map fst ?r) = mset (map fst (required_disks (Actions p)))"
    by (rule map_fst_go_range)
  show ?thesis using app d s m unfolding names by blast
qed

lemma buildRequest_disks:
  assumes "buildRequest w f filename project = Inr req"
    and "filename = [] \<or> decodeRequest w filename = None"
  shows "distinct (map Name (Disks (VM (Pipeline_Resources (Request_Pipeline req)))))
     \<and> set (map Name (Disks (VM (Pipeline_Resources (Request_Pipeline req)))))
         = Disk ` (\<Union>a\<in>set (Actions (Request_Pipeline req)). set (Mounts a))"
proof -
  from buildRequest_assembled [OF assms] obtain st actions res where
    r: "new_resources w f project = Inr res"
    and acts: "Actions (Request_Pipeline req)
         = map (share_pids f) (map the (pipeline_actions f project st actions))"
    and res: "Pipeline_Resources (Request_Pipeline req)
         = Pipeline_Resources (addRequiredScopes f (addRequiredDisks w f
             \<lparr>Actions = map the (pipeline_actions f project st actions),
              Environment = st_environment st,
              Pipeline_Resources = res,
              Pipeline_Timeout = []\<rparr>))"
    by blast
  let ?p0 = "\<lparr>Actions = map the (pipeline_actions f project st actions),
              Environment = st_environment st,
              Pipeline_Resources = res,
              Pipeline_Timeout = []\<rparr>"
  have empty: "Disks (VM (Pipeline_Resources ?p0)) = []"
    using new_resources_VM [OF r] by (simp add: new_vm_def)
  have "Disks (VM (Pipeline_Resources (Request_Pipeline req)))
        = Disks (VM (Pipeline_Resources (addRequiredDisks w f ?p0)))"
    unfolding res by (rule Disks_addRequiredScopes)
  also have "\<dots> = new_disks ?p0 (addRequiredDisks w f ?p0)"
    using addRequiredDisks_new_disks [of w f ?p0] unfolding empty by simp
  finally have d: "Disks (VM (Pipeline_Resources (Request_Pipeline req)))
        = new_disks ?p0 (addRequiredDisks w f ?p0)" .
  have m: "(\<Union>a\<in>set (Actions (Request_Pipeline req)). set (Mounts a))
        = (\<Union>a\<in>set (Actions ?p0). set (Mounts a))"
    unfolding acts by (simp add: Mounts_share_pids)
  note a = addRequiredDisks_new_disks [of w f ?p0]
  show ?thesis
    unfolding d m
    by (intro conjI) (rule a [THEN conjunct2, THEN conjunct1],
        rule a [THEN conjunct2, THEN conjunct2, THEN conjunct1])
qed

text \<open>
  Claim C9, as the code has it.  The disks that \<open>addRequiredDisks\<close> appends have
  pairwise distinct names, which are exactly the disk names of the mounts of the
  actions; their order is that of a \<open>range\<close> over a Go map, a permutation of the
  names that is not fixed.  So the disk list of every request that \<open>buildRequest\<close>
  assembles has no duplicates and names exactly the disks that its actions mount.
\<close>

theorem addRequiredDisks_distinct:
  "Disks (VM (Pipeline_Resources (addRequiredDisks w f p)))
     = Disks (VM (Pipeline_Resources p)) @ new_disks p (addRequiredDisks w f p)
   \<and> distinct (map Name (new_disks p (addRequiredDisks w f p)))
   \<and> set (map Name (new_disks p (addRequiredDisks w f p)))
       = Disk ` (\<Union>a\<in>set (Actions p). set (Mounts a))
   \<and> mset (map Name (new_disks p (addRequiredDisks w f p)))
       = mset (map fst (required_disks (Actions p)))
   \<and> (\<forall>req. buildRequest w f filename project = Inr req
          \<longrightarrow> (filename = [] \<or> decodeRequest w filename = None)
          \<longrightarrow> distinct (map Name (Disks (VM (Pipeline_Resources (Request_Pipeline req)))))
              \<and> set (map Name (Disks (VM (Pipeline_Resources (Request_Pipeline req)))))
                  = Disk ` (\<Union>a\<in>set (Actions (Request_Pipeline req)). set (Mounts a)))"
proof (intro conjI allI impI)
  note a = addRequiredDisks_new_disks [of w f p]
  show "Disks (VM (Pipeline_Resources (addRequiredDisks w f p)))
     = Disks (VM (Pipeline_Resources p)) @ new_disks p (addRequiredDisks w f p)"
    by (rule a [THEN conjunct1])
  show "distinct (map Name (new_disks p (addRequiredDisks w f p)))"
    by (rule a [THEN conjunct2, THEN conjunct1])
  show "set (map Name (new_disks p (addRequiredDisks w f p)))
       = Disk ` (\<Union>a\<in>set (Actions p). set (Mounts a))"
    by (rule a [THEN conjunct2, THEN conjunct2, THEN conjunct1])
  show "mset (map Name (new_disks p (addRequiredDisks w f p)))
       = mset (map fst (required_disks (Actions p)))"
    by (rule a [THEN conjunct2, THEN conjunct2, THEN conjunct2])
next
  fix req
  assume r: "buildRequest w f filename project = Inr req"
    and h: "filename = [] \<or> decodeRequest w filename = None"
  show "distinct (map Name (Disks (VM (Pipeline_Resources (Request_Pipeline req)))))"
    by (rule buildRequest_disks [OF r h, THEN conjunct1])
next
  fix req
  assume r: "buildRequest w f filename project = Inr req"
    and h: "filename = [] \<or> decodeRequest w filename = None"
  show "set (map Name (Disks (VM (Pipeline_Resources (Request_Pipeline req)))))
          = Disk ` (\<Union>a\<in>set (Actions (Request_Pipeline req)). set (Mounts a))"
    by (rule buildRequest_disks [OF r h, THEN conjunct2])
qed

theorem addRequiredDisks_distinct_witness:
  "set (map Name (new_disks two_disk_pipeline
      (addRequiredDisks example_world default_flags two_disk_pipeline))) = {''a'', ''b''}
   \<and> (\<exists>req. buildRequest example_world example_flags [] ''proj'' = Inr req
         \<and> distinct (map Name (Disks (VM (Pipeline_Resources (Request_Pipeline req))))))"
proof -
  have "set (map Name (new_disks two_disk_pipeline
          (addRequiredDisks example_world default_flags two_disk_pipeline)))
        = Disk ` (\<Union>a\<in>set (Actions two_disk_pipeline). set (Mounts a))"
    by (rule addRequiredDisks_distinct [of example_world default_flags two_disk_pipeline,
          THEN conjunct2, THEN conjunct2, THEN conjunct1])
  also have "\<dots> = {''a'', ''b''}"
    by (auto simp: two_disk_pipeline_def)
  finally have s: "set (map Name (new_disks two_disk_pipeline
      (addRequiredDisks example_world default_flags two_disk_pipeline))) = {''a'', ''b''}" .
  have "\<exists>req. buildRequest example_world example_flags [] ''proj'' = Inr req"
    by (simp add: eval_defs library_defs Let_def)
  then obtain req where r: "buildRequest example_world example_flags [] ''proj'' = Inr req"
    by blast
  have h: "[] = [] \<or> decodeRequest example_world [] = None" by simp
  have d: "distinct (map Name (Disks (VM (Pipeline_Resources (Request_Pipeline req)))))"
    by (rule addRequiredDisks_distinct [of example_world example_flags _ "[]" "''proj''",
          THEN conjunct2, THEN conjunct2, THEN conjunct2, THEN conjunct2, rule_format,
          OF r h, THEN conjunct1])
  show ?thesis
  proof (intro conjI exI)
    show "buildRequest example_world example_flags [] ''proj'' = Inr req" by (rule r)
  qed (rule s, rule d)
qed

text \<open>
  Claim C9 as stated fails: the same pipeline with two disks gets them in either
  order, depending on the order that \<open>range\<close> takes.
\<close>

theorem addRequiredDisks_order_varies:
  "map Name (Disks (VM (Pipeline_Resources
      (addRequiredDisks (example_world\<lparr>rangeDisks := [0]\<rparr>) default_flags two_disk_pipeline))))
     = [''a'', ''b'']
   \<and> map Name (Disks (VM (Pipeline_Resources
      (addRequiredDisks (example_world\<lparr>rangeDisks := [1]\<rparr>) default_flags two_disk_pipeline))))
     = [''b'', ''a'']"
  by (simp add: addRequiredDisks_def two_disk_pipeline_def required_disks_def new_vm_def
      default_flags_def example_world_def googleRoot_def Let_def listOf_def)

subsection \<open>The retry budget\<close>







subsection \<open>The order of the actions\<close>

text \<open>
  Claim C4.  Whenever \<open>buildRequest\<close> assembles a pipeline (the file is not a raw
  request), its actions are, in this order: the directory-creation step, the ssh
  server if asked for, the localization steps of the plan, the steps of the script
  or command (preceded by the periodic copy of the log when that is configured), and
  the delocalization steps of the plan; each stamped with the shared PID namespace
  if that is asked for.
\<close>

theorem buildRequest_action_order:
  assumes "buildRequest w f filename project = Inr req"
    and "filename = [] \<or> decodeRequest w filename = None"
  shows "\<exists>st logger user.
       plan w f = Inr st
     \<and> periodic_log w f = map Some logger
     \<and> script_actions w f filename = Inr (map Some (logger @ user))
     \<and> Actions (Request_Pipeline req) =
         map (share_pids f)
           ([bash f [''mkdir -p '' @ Join (mkdir_arguments (st_directories st)) '' '']]
            @ (if ssh f then [sshDebug project] else [])
            @ st_localizers st
            @ logger @ user
            @ st_delocalizers st)"
proof -
  from buildRequest_assembled [OF assms] obtain st actions where
    st: "plan w f = Inr st" and a: "script_actions w f filename = Inr actions"
    and nn: "None \<notin> set (pipeline_actions f project st actions)"
    and acts: "Actions (Request_Pipeline req)
         = map (share_pids f) (map the (pipeline_actions f project st actions))"
    by blast
  from nn have "None \<noteq> mkdir f (st_directories st)"
    by (simp add: pipeline_actions_eq)
  then have mk: "mkdir f (st_directories st) \<noteq> None"
    by (rule not_sym)
  from nn have an: "None \<notin> set actions"
    by (auto simp: pipeline_actions_eq)
  from mk have mkd: "mkdir f (st_directories st)
      = Some (bash f [''mkdir -p '' @ Join (mkdir_arguments (st_directories st)) '' ''])"
    by (auto simp: mkdir_def split: if_splits)
  have "None \<notin> set (periodic_log w f)"
    by (simp add: periodic_log_def)
  then obtain logger where lg: "periodic_log w f = map Some logger"
    using no_nil_map_Some by blast
  from a obtain v where v: "actions = periodic_log w f @ v"
    by (auto simp: script_actions_def split: if_splits sum.splits)
  with an have "None \<notin> set v" by simp
  then obtain user where u: "v = map Some user" using no_nil_map_Some by blast
  have all: "actions = map Some (logger @ user)" using v lg u by simp
  have "map the (pipeline_actions f project st actions)
      = [bash f [''mkdir -p '' @ Join (mkdir_arguments (st_directories st)) '' '']]
            @ (if ssh f then [sshDebug project] else [])
            @ st_localizers st @ logger @ user @ st_delocalizers st"
    unfolding pipeline_actions_eq mkd all by (simp add: comp_def)
  with st lg a all acts show ?thesis by metis
qed


theorem buildRequest_action_order_witness:
  "\<exists>req. buildRequest example_world example_flags [] ''proj'' = Inr req
     \<and> (\<exists>st logger user.
           plan example_world example_flags = Inr st
         \<and> periodic_log example_world example_flags = map Some logger
         \<and> script_actions example_world example_flags [] = Inr (map Some (logger @ user))
         \<and> Actions (Request_Pipeline req) =
             map (share_pids example_flags)
               ([bash example_flags
                   [''mkdir -p '' @ Join (mkdir_arguments (st_directories st)) '' '']]
                @ (if ssh example_flags then [sshDebug ''proj''] else [])
                @ st_localizers st @ logger @ user @ st_delocalizers st))"
proof -
  have "\<exists>req. buildRequest example_world example_flags [] ''proj'' = Inr req"
    by (simp add: eval_defs library_defs Let_def)
  then obtain req where r: "buildRequest example_world example_flags [] ''proj'' = Inr req"
    by blast
  have h: "[] = [] \<or> decodeRequest example_world [] = None" by simp
  from buildRequest_action_order [OF r h] r show ?thesis by blast
qed

subsection \<open>Named lists of inputs and outputs\<close>

lemma namedListOf_loop_map:
  "distinct (map fst out) \<Longrightarrow>
   distinct (map fst (namedListOf_loop p out n es))
   \<and> map_of (namedListOf_loop p out n es) = map_of out ++ map_of (rev (named_entries p n es))"
proof (induction es arbitrary: out n)
  case Nil
  then show ?case by simp
next
  case (Cons e es)
  let ?out = "(if 0 < Index e ''='' then AList.update (drop (nat (Index e ''='') + 1) e) (take (nat (Index e ''='')) e) out
            else if e \<noteq> [] then AList.update e (p @ decimal n) out
            else out)"
  have d: "distinct (map fst ?out)" using Cons.prems by (simp add: distinct_update)
  have step: "namedListOf_loop p out n (e # es) = namedListOf_loop p ?out (n + 1) es"
    by (simp add: Let_def)
  have m: "map_of ?out = map_of out ++ map_of (if entry_kept e then [(entry_path e, entry_name p n e)] else [])"
    by (auto simp: entry_kept_def entry_path_def entry_name_def update_conv')
  from Cons.IH [OF d, of "n + 1"] show ?case
    unfolding step m by (simp add: map_add_assoc)
qed

lemma namedListOf_map:
  "distinct (map fst (namedListOf input p))
   \<and> map_of (namedListOf input p) = map_of (rev (named_entries p 0 (Split input CHR '','')))"
  unfolding namedListOf_def using namedListOf_loop_map [of "[]"] by simp

lemma localize_input_effect:
  "localize_input w f st e = Inr st' \<Longrightarrow>
     dom (st_environment st') = insert (snd e) (dom (st_environment st))
   \<and> st_delocalizers st' = st_delocalizers st
   \<and> (\<not> fuse f \<longrightarrow> length (st_localizers st') = Suc (length (st_localizers st))
                     \<and> st_buckets st' = st_buckets st)"
  by (auto simp: localize_input_def Let_def split: if_splits sum.splits)

lemma localize_inputs_effect:
  "localize_inputs w f st es = Inr st' \<Longrightarrow>
     dom (st_environment st') = dom (st_environment st) \<union> snd ` set es
   \<and> st_delocalizers st' = st_delocalizers st
   \<and> (\<not> fuse f \<longrightarrow> length (st_localizers st') = length (st_localizers st) + length es
                     \<and> st_buckets st' = st_buckets st)"
proof (induction es arbitrary: st)
  case Nil
  then show ?case by simp
next
  case (Cons e es)
  from Cons.prems obtain st1 where 1: "localize_input w f st e = Inr st1"
    and 2: "localize_inputs w f st1 es = Inr st'"
    by (auto split: sum.splits)
  from localize_input_effect [OF 1] Cons.IH [OF 2] show ?case by auto
qed

lemma delocalize_outputs_effect:
  "dom (st_environment (foldl (delocalize_output f) st es)) = dom (st_environment st) \<union> snd ` set es
   \<and> length (st_delocalizers (foldl (delocalize_output f) st es)) = length (st_delocalizers st) + length es
   \<and> st_localizers (foldl (delocalize_output f) st es) = st_localizers st"
proof (induction es arbitrary: st)
  case Nil
  then show ?case by simp
next
  case (Cons e es)
  have "dom (st_environment (delocalize_output f st e)) = insert (snd e) (dom (st_environment st))"
    "length (st_delocalizers (delocalize_output f st e)) = Suc (length (st_delocalizers st))"
    "st_localizers (delocalize_output f st e) = st_localizers st"
    by (simp_all add: delocalize_output_def Let_def)
  with Cons.IH [of "delocalize_output f st e"] show ?case by auto
qed

lemma mount_buckets_effect:
  "st_environment (mount_buckets w st) = st_environment st
   \<and> st_delocalizers (mount_buckets w st) = st_delocalizers st
   \<and> (st_buckets st = [] \<longrightarrow> st_localizers (mount_buckets w st) = st_localizers st)"
  by (simp add: mount_buckets_def)

lemma upload_log_effect:
  "st_environment (upload_log f st) = st_environment st
   \<and> st_localizers (upload_log f st) = st_localizers st
   \<and> length (st_delocalizers (upload_log f st))
       = length (st_delocalizers st) + (if output f = [] then 0 else 1)"
  by (simp add: upload_log_def)

text \<open>
  Claim C10.  \<open>namedListOf\<close> yields a map keyed by the path of each entry: the keys
  are distinct and a path is mapped to the name of the last entry with that path
  (\<open>map_of\<close> of the reversed list of entries), where the default name of an entry
  carries its index in the comma-separated list.  The loops of the plan visit each
  entry of the map once (in some order); so the environment gains exactly the names
  that are left in the two maps, there is one localize action per input path (when
  the inputs are not mounted by FUSE) and one delocalize action per output path
  (plus the upload of the log when configured).
\<close>

theorem namedListOf_keyed_by_path:
  "distinct (map fst (namedListOf input p))
   \<and> map_of (namedListOf input p) = map_of (rev (named_entries p 0 (Split input CHR '','')))
   \<and> mset (go_range (rangeInputs w) (namedListOf (inputs f) ''INPUT''))
       = mset (namedListOf (inputs f) ''INPUT'')
   \<and> mset (go_range (rangeOutputs w) (namedListOf (outputs f) ''OUTPUT''))
       = mset (namedListOf (outputs f) ''OUTPUT'')
   \<and> (\<forall>st. plan w f = Inr st \<longrightarrow>
         dom (st_environment st)
           = dom (environment f) \<union> {''TMPDIR''}
             \<union> snd ` set (namedListOf (inputs f) ''INPUT'')
             \<union> snd ` set (namedListOf (outputs f) ''OUTPUT'')
         \<and> (\<not> fuse f \<longrightarrow> length (st_localizers st) = length (namedListOf (inputs f) ''INPUT''))
         \<and> length (st_delocalizers st)
             = length (namedListOf (outputs f) ''OUTPUT'') + (if output f = [] then 0 else 1))"
proof -
  have plan_part: "dom (st_environment st)
           = dom (environment f) \<union> {''TMPDIR''}
             \<union> snd ` set (namedListOf (inputs f) ''INPUT'')
             \<union> snd ` set (namedListOf (outputs f) ''OUTPUT'')
         \<and> (\<not> fuse f \<longrightarrow> length (st_localizers st) = length (namedListOf (inputs f) ''INPUT''))
         \<and> length (st_delocalizers st)
             = length (namedListOf (outputs f) ''OUTPUT'') + (if output f = [] then 0 else 1)"
    if p: "plan w f = Inr st" for st
  proof -
    let ?ins = "go_range (rangeInputs w) (namedListOf (inputs f) ''INPUT'')"
    let ?outs = "go_range (rangeOutputs w) (namedListOf (outputs f) ''OUTPUT'')"
    from p obtain st1 where 1: "localize_inputs w f (staging_init f) ?ins = Inr st1"
      and st: "st = upload_log f (foldl (delocalize_output f) (mount_buckets w st1) ?outs)"
      by (auto simp: plan_def split: sum.splits)
    note a = localize_inputs_effect [OF 1]
    note b = mount_buckets_effect [of w st1]
    note c = delocalize_outputs_effect [of f "mount_buckets w st1" ?outs]
    note d = upload_log_effect [of f "foldl (delocalize_output f) (mount_buckets w st1) ?outs"]
    have init: "dom (st_environment (staging_init f)) = insert ''TMPDIR'' (dom (environment f))"
      "st_localizers (staging_init f) = []" "st_delocalizers (staging_init f) = []"
      "st_buckets (staging_init f) = []"
      by (simp_all add: staging_init_def)
    have env: "dom (st_environment st) = dom (environment f) \<union> {''TMPDIR''}
             \<union> snd ` set (namedListOf (inputs f) ''INPUT'')
             \<union> snd ` set (namedListOf (outputs f) ''OUTPUT'')"
      unfolding st using a b c d init by (auto simp: set_go_range)
    have loc: "length (st_localizers st) = length (namedListOf (inputs f) ''INPUT'')" if "\<not> fuse f"
      unfolding st using a b c d init that by (simp add: length_go_range)
    have deloc: "length (st_delocalizers st)
             = length (namedListOf (outputs f) ''OUTPUT'') + (if output f = [] then 0 else 1)"
      unfolding st using a b c d init by (simp add: length_go_range)
    show ?thesis using env loc deloc by blast
  qed
  show ?thesis
    using namedListOf_map [of input p] mset_go_range plan_part by blast
qed


theorem namedListOf_keyed_by_path_witness:
  "namedListOf ''A=gs://b/x,B=gs://b/x,,gs://b/y'' ''INPUT''
     = [(''gs://b/x'', ''B''), (''gs://b/y'', ''INPUT3'')]
   \<and> (\<exists>st. plan example_world repeated_flags = Inr st
         \<and> length (st_localizers st) = 2
         \<and> dom (st_environment st) = {''B'', ''INPUT3'', ''TMPDIR''})"
proof -
  have n: "namedListOf ''A=gs://b/x,B=gs://b/x,,gs://b/y'' ''INPUT''
     = [(''gs://b/x'', ''B''), (''gs://b/y'', ''INPUT3'')]"
    by (simp add: namedListOf_def decimal.simps Let_def)
  have o: "namedListOf [] ''OUTPUT'' = []"
    by (simp add: namedListOf_def Let_def)
  have i: "inputs repeated_flags = ''A=gs://b/x,B=gs://b/x,,gs://b/y''"
    "outputs repeated_flags = []" "\<not> fuse repeated_flags" "environment repeated_flags = Map.empty"
    by (simp_all add: repeated_flags_def default_flags_def)
  have "\<exists>st. plan example_world repeated_flags = Inr st"
    by (simp add: eval_defs library_defs Let_def)
  then obtain st where p: "plan example_world repeated_flags = Inr st" by blast
  from namedListOf_keyed_by_path [of "[]" "[]" example_world repeated_flags] p
  have "dom (st_environment st)
           = dom (environment repeated_flags) \<union> {''TMPDIR''}
             \<union> snd ` set (namedListOf (inputs repeated_flags) ''INPUT'')
             \<union> snd ` set (namedListOf (outputs repeated_flags) ''OUTPUT'')"
    and "\<not> fuse repeated_flags \<longrightarrow>
           length (st_localizers st) = length (namedListOf (inputs repeated_flags) ''INPUT'')"
    by blast+
  then have d: "dom (st_environment st)
           = dom (Map.empty :: string \<rightharpoonup> string) \<union> {''TMPDIR''}
             \<union> snd ` set [(''gs://b/x'', ''B''), (''gs://b/y'', ''INPUT3'')]
             \<union> snd ` set ([] :: (string \<times> string) list)"
    and l: "length (st_localizers st) = length [(''gs://b/x'', ''B''), (''gs://b/y'', ''INPUT3'')]"
    unfolding i(1,2,4) n o using i(3) by simp_all
  have l2: "length (st_localizers st) = 2" using l by simp
  have d2: "dom (st_environment st) = {''B'', ''INPUT3'', ''TMPDIR''}"
    unfolding d by simp
  show ?thesis
  proof (intro conjI exI)
    show "plan example_world repeated_flags = Inr st" by (rule p)
  qed (rule n, rule l2, rule d2)
qed


subsection \<open>Local files as inputs\<close>

text \<open>
  Claim C3 does not hold of the code.  \<open>parseGCSPath\<close> takes every input that
  \<open>url.Parse\<close> accepts as a storage path, and \<open>url.Parse\<close> accepts a plain file
  path.  So for such an input (when the inputs are not mounted by FUSE) the planner
  emits the copy by gsutil and never reads the file; the file is read, encoded and
  written by the action only for an input that \<open>url.Parse\<close> rejects.
\<close>

theorem localize_input_by_url_parse:
  "(urlParse w input \<noteq> None \<longrightarrow> \<not> fuse f \<longrightarrow>
      (\<exists>st'. localize_input w f st (input, nm) = Inr st'
         \<and> st_localizers st' = st_localizers st
              @ [gcsTransfer f input input (gcsJoin [inputRoot, TrimRight input CHR ''*''])]))
   \<and> (urlParse w input = None \<longrightarrow>
        (case ReadFile w input of
           None \<Rightarrow> localize_input w f st (input, nm) = Inl (Processing input ReadingInputFile)
         | Some raw \<Rightarrow>
             (\<exists>st'. localize_input w f st (input, nm) = Inr st'
                \<and> st_localizers st' = st_localizers st
                     @ [bash f
                          [''mkdir -p '' @ Quote w (path_Dir (gcsJoin [inputRoot, TrimRight input CHR ''*''])),
                           ''echo '' @ Quote w (EncodeToString w raw) @ '' | base64 -d > ''
                             @ Quote w (gcsJoin [inputRoot, TrimRight input CHR ''*''])]])))"
  by (auto simp: localize_input_def parseGCSPath_def upload_def Let_def split: option.splits)

theorem localize_input_by_url_parse_witness:
  "urlParse example_world ''/etc/motd'' \<noteq> None
   \<and> \<not> fuse default_flags
   \<and> (\<exists>st'. localize_input example_world default_flags (staging_init default_flags)
               (''/etc/motd'', ''INPUT0'') = Inr st'
         \<and> map Commands (st_localizers st')
            = [[''-c'', ''gsutil -q cp /etc/motd /mnt/google/.google/input/etc/motd'']])
   \<and> urlParse (example_world\<lparr>urlParse := (\<lambda>_. None), ReadFile := (\<lambda>_. Some ''hi'')\<rparr>) ''/etc/motd'' = None
   \<and> (\<exists>st'. localize_input (example_world\<lparr>urlParse := (\<lambda>_. None), ReadFile := (\<lambda>_. Some ''hi'')\<rparr>)
               default_flags (staging_init default_flags) (''/etc/motd'', ''INPUT0'') = Inr st'
         \<and> map Commands (st_localizers st')
            = [[''-c'', ''mkdir -p '' @ [CHR 0x22] @ ''/mnt/google/.google/input/etc'' @ [CHR 0x22]
                  @ '' && echo '' @ [CHR 0x22] @ ''hi'' @ [CHR 0x22] @ '' | base64 -d > ''
                  @ [CHR 0x22] @ ''/mnt/google/.google/input/etc/motd'' @ [CHR 0x22]]])"
proof -
  let ?w2 = "example_world\<lparr>urlParse := (\<lambda>_. None), ReadFile := (\<lambda>_. Some ''hi'')\<rparr>"
  have h1: "urlParse example_world ''/etc/motd'' \<noteq> None" by (simp add: example_world_def)
  have h2: "\<not> fuse default_flags" by (simp add: default_flags_def)
  have h3: "urlParse ?w2 ''/etc/motd'' = None" by simp
  have r: "ReadFile ?w2 ''/etc/motd'' = Some ''hi''" by simp
  have c1: "map Commands (st_localizers (staging_init default_flags)
              @ [gcsTransfer default_flags ''/etc/motd'' ''/etc/motd''
                   (gcsJoin [inputRoot, TrimRight ''/etc/motd'' CHR ''*''])])
            = [[''-c'', ''gsutil -q cp /etc/motd /mnt/google/.google/input/etc/motd'']]"
    by (simp add: eval_defs library_defs Let_def)
  have c2: "map Commands (st_localizers (staging_init default_flags)
              @ [bash default_flags
                   [''mkdir -p '' @ Quote ?w2 (path_Dir (gcsJoin [inputRoot, TrimRight ''/etc/motd'' CHR ''*''])),
                    ''echo '' @ Quote ?w2 (EncodeToString ?w2 ''hi'') @ '' | base64 -d > ''
                      @ Quote ?w2 (gcsJoin [inputRoot, TrimRight ''/etc/motd'' CHR ''*''])]])
            = [[''-c'', ''mkdir -p '' @ [CHR 0x22] @ ''/mnt/google/.google/input/etc'' @ [CHR 0x22]
                  @ '' && echo '' @ [CHR 0x22] @ ''hi'' @ [CHR 0x22] @ '' | base64 -d > ''
                  @ [CHR 0x22] @ ''/mnt/google/.google/input/etc/motd'' @ [CHR 0x22]]]"
    by (simp add: eval_defs library_defs Let_def)
  from localize_input_by_url_parse [of example_world "''/etc/motd''" default_flags
      "staging_init default_flags" "''INPUT0''"] h1 h2
  obtain st1 where s1: "localize_input example_world default_flags (staging_init default_flags)
               (''/etc/motd'', ''INPUT0'') = Inr st1"
    and l1: "st_localizers st1 = st_localizers (staging_init default_flags)
              @ [gcsTransfer default_flags ''/etc/motd'' ''/etc/motd''
                   (gcsJoin [inputRoot, TrimRight ''/etc/motd'' CHR ''*''])]"
    by blast
  from localize_input_by_url_parse [of ?w2 "''/etc/motd''" default_flags
      "staging_init default_flags" "''INPUT0''"] h3 r
  obtain st2 where s2: "localize_input ?w2 default_flags (staging_init default_flags)
               (''/etc/motd'', ''INPUT0'') = Inr st2"
    and l2: "st_localizers st2 = st_localizers (staging_init default_flags)
              @ [bash default_flags
                   [''mkdir -p '' @ Quote ?w2 (path_Dir (gcsJoin [inputRoot, TrimRight ''/etc/motd'' CHR ''*''])),
                    ''echo '' @ Quote ?w2 (EncodeToString ?w2 ''hi'') @ '' | base64 -d > ''
                      @ Quote ?w2 (gcsJoin [inputRoot, TrimRight ''/etc/motd'' CHR ''*''])]]"
    by (auto split: option.splits)
  have e1: "\<exists>st'. localize_input example_world default_flags (staging_init default_flags)
               (''/etc/motd'', ''INPUT0'') = Inr st'
         \<and> map Commands (st_localizers st')
            = [[''-c'', ''gsutil -q cp /etc/motd /mnt/google/.google/input/etc/motd'']]"
  proof (intro exI conjI)
    show "localize_input example_world default_flags (staging_init default_flags)
               (''/etc/motd'', ''INPUT0'') = Inr st1" by (rule s1)
    show "map Commands (st_localizers st1)
            = [[''-c'', ''gsutil -q cp /etc/motd /mnt/google/.google/input/etc/motd'']]"
      unfolding l1 by (rule c1)
  qed
  have e2: "\<exists>st'. localize_input ?w2 default_flags (staging_init default_flags)
               (''/etc/motd'', ''INPUT0'') = Inr st'
         \<and> map Commands (st_localizers st')
            = [[''-c'', ''mkdir -p '' @ [CHR 0x22] @ ''/mnt/google/.google/input/etc'' @ [CHR 0x22]
                  @ '' && echo '' @ [CHR 0x22] @ ''hi'' @ [CHR 0x22] @ '' | base64 -d > ''
                  @ [CHR 0x22] @ ''/mnt/google/.google/input/etc/motd'' @ [CHR 0x22]]]"
  proof (intro exI conjI)
    show "localize_input ?w2 default_flags (staging_init default_flags)
               (''/etc/motd'', ''INPUT0'') = Inr st2" by (rule s2)
    show "map Commands (st_localizers st2)
            = [[''-c'', ''mkdir -p '' @ [CHR 0x22] @ ''/mnt/google/.google/input/etc'' @ [CHR 0x22]
                  @ '' && echo '' @ [CHR 0x22] @ ''hi'' @ [CHR 0x22] @ '' | base64 -d > ''
                  @ [CHR 0x22] @ ''/mnt/google/.google/input/etc/motd'' @ [CHR 0x22]]]"
      unfolding l2 by (rule c2)
  qed
  show ?thesis
  proof (intro conjI)
    show "urlParse example_world ''/etc/motd'' \<noteq> None" by (rule h1)
    show "\<not> fuse default_flags" by (rule h2)
    show "urlParse ?w2 ''/etc/motd'' = None" by (rule h3)
  qed (rule e1, rule e2)
qed

end
